theory Spec2Isabelle
  imports Main "HOL-Library.Sublist" "HOL-Library.AList"
begin

section \<open>Strings\<close>

text \<open>
  A Go \<^verbatim>\<open>string\<close> is a sequence of bytes; it is modelled as a \<^typ>\<open>string\<close>, one
  \<^typ>\<open>char\<close> per byte, so that \<^const>\<open>length\<close> is Go's \<^verbatim>\<open>len\<close>.
\<close>

text \<open>
  \<^verbatim>\<open>strings.Cut(s, sep)\<close>: the text before and after the first (leftmost) occurrence of
  \<open>sep\<close> in \<open>s\<close>, or \<open>None\<close> when \<open>sep\<close> does not occur.
\<close>

fun strings_Cut :: "string \<Rightarrow> string \<Rightarrow> (string \<times> string) option" where
  "strings_Cut [] sep = (if sep = [] then Some ([], []) else None)"
| "strings_Cut (c # cs) sep =
     (if prefix sep (c # cs) then Some ([], drop (length sep) (c # cs))
      else map_option (\<lambda>(before, after). (c # before, after)) (strings_Cut cs sep))"

definition strings_Contains :: "string \<Rightarrow> string \<Rightarrow> bool" where
  "strings_Contains s substr = (strings_Cut s substr \<noteq> None)"

definition strings_HasPrefix :: "string \<Rightarrow> string \<Rightarrow> bool" where
  "strings_HasPrefix s pre = prefix pre s"

lemma strings_Cut_Some:
  "strings_Cut s sep = Some (a, b) \<Longrightarrow> s = a @ sep @ b"
proof (induction s arbitrary: a)
  case Nil
  then show ?case by (simp split: if_splits)
next
  case (Cons c cs)
  show ?case
  proof (cases "prefix sep (c # cs)")
    case True
    with Cons.prems have "a = []" and "b = drop (length sep) (c # cs)" by simp_all
    moreover from True obtain r where "c # cs = sep @ r" by (auto simp: prefix_def)
    ultimately show ?thesis by simp
  next
    case False
    with Cons.prems obtain a' where "strings_Cut cs sep = Some (a', b)" and "a = c # a'"
      by auto
    with Cons.IH show ?thesis by simp
  qed
qed

lemma strings_Cut_shorter:
  "strings_Cut s sep = Some (a, b) \<Longrightarrow> sep \<noteq> [] \<Longrightarrow> length b < length s"
  by (drule strings_Cut_Some) simp

text \<open>
  \<^verbatim>\<open>strings.Split(s, sep)\<close> for a non-empty separator: cut at the leftmost occurrence,
  continue behind it; the last component is what remains.  Every caller in this program
  passes a constant, non-empty separator.  (With the empty separator Go splits after each
  UTF-8 sequence; the model splits after each byte there.)
\<close>

function strings_Split :: "string \<Rightarrow> string \<Rightarrow> string list" where
  "strings_Split s sep =
     (if sep = [] then map (\<lambda>c. [c]) s
      else case strings_Cut s sep of
             None \<Rightarrow> [s]
           | Some (before, after) \<Rightarrow> before # strings_Split after sep)"
  by pat_completeness auto
termination
  by (relation "measure (\<lambda>(s, sep). length s)") (auto dest: strings_Cut_shorter)

declare strings_Split.simps [simp del]

section \<open>Command-line arguments\<close>

text \<open>
  \<^verbatim>\<open>NameMap\<close> is \<^verbatim>\<open>map[string]string\<close>: an association list with distinct keys,
  written with \<^const>\<open>AList.update\<close> and read with \<^const>\<open>map_of\<close>.
\<close>

type_synonym NameMap = "(string \<times> string) list"

definition remap :: string where
  "remap = '':=''"

text \<open>One iteration of the loop of \<^verbatim>\<open>processArguments\<close>.\<close>

definition processArgument ::
  "NameMap \<times> NameMap \<times> NameMap \<times> string list \<Rightarrow> string \<Rightarrow>
   NameMap \<times> NameMap \<times> NameMap \<times> string list" where
  "processArgument st arg =
     (case st of (mapping, params, specials, rest) \<Rightarrow>
        (case strings_Split arg remap of
           [key, val] \<Rightarrow>
             if strings_HasPrefix key ''__'' then (mapping, params, AList.update key val specials, rest)
             else if strings_HasPrefix key ''_'' then (mapping, AList.update (drop 1 key) val params, specials, rest)
             else (AList.update key val mapping, params, specials, rest)
         | _ \<Rightarrow> (mapping, params, specials, rest @ [arg])))"

definition processArguments ::
  "string list \<Rightarrow> NameMap \<times> NameMap \<times> NameMap \<times> string list" where
  "processArguments args = foldl processArgument ([], [], [], []) args"


section \<open>The node and its environment\<close>

text \<open>
  An XML-RPC value as the handlers see it (\<^verbatim>\<open>interface{}\<close>): \<open>XNil\<close> is Go's \<^verbatim>\<open>nil\<close>.
  Doubles, structs, dates and binary data are never inspected by the functions below and
  are left out.
\<close>

datatype xvalue = XNil | XInt int | XBool bool | XStr string | XArray "xvalue list"

text \<open>
  How a call ends when it does not return normally: a Go \<^verbatim>\<open>error\<close> value given back to
  the caller, the process ended by \<^verbatim>\<open>Logger.Fatal\<close>, or a run-time panic.
\<close>

datatype failure = Error string | Exit | Panic string

text \<open>A call to the Master: URI, method, arguments (the caller id first).\<close>

type_synonym rpc = "string \<times> string \<times> xvalue list"

text \<open>
  \<^verbatim>\<open>Logger\<close> is an interface; the one thing about an implementation that changes the
  control flow of the node is whether \<^verbatim>\<open>Fatal\<close>/\<^verbatim>\<open>Fatalf\<close> come back.
\<close>

record Logger =
  fatalExits :: bool

text \<open>
  What the node asks of the operating system, the Go run time and the parts of the package
  that are not in \<^verbatim>\<open>node.go\<close>.  An error is the \<open>Some\<close> of its message.
  \<open>callRosAPI\<close> gives the pair Go returns, value and error.  \<open>rangeNameMap\<close> is the order
  in which \<^verbatim>\<open>range\<close> visits a map, which Go leaves open.  \<open>newListener\<close> is the host and
  port at which a new publisher for a topic listens.
\<close>

record sys =
  getenv :: "string \<Rightarrow> string"
  filepath_Join :: "string \<Rightarrow> string \<Rightarrow> string"
  qualifyNodeName :: "string \<Rightarrow> string + string \<times> string"
  determineHost :: "string \<times> bool"
  NewDefaultLogger :: Logger
  callRosAPI :: "rpc \<Rightarrow> xvalue \<times> string option"
  rangeNameMap :: "NameMap \<Rightarrow> (string \<times> string) list"
  net_Listen :: "string \<Rightarrow> string + string"
  net_SplitHostPort :: "string \<Rightarrow> string + string \<times> string"
  newListener :: "string \<Rightarrow> string \<times> string"

type_synonym callback = nat

record MessageType =
  mt_Name :: string

text \<open>
  \<open>pub_ref\<close> and \<open>sub_ref\<close> stand for the address of the object: two publishers are the same
  object when their references are equal.
\<close>

record defaultPublisher =
  pub_ref :: nat
  pub_topic :: string
  pub_msgType :: MessageType
  connectCallback :: "callback option"
  disconnectCallback :: "callback option"
  hostAndPort :: "string \<times> string"

text \<open>\<open>pubListChan\<close> holds the publisher lists sent to the channel so far, oldest first.\<close>

record defaultSubscriber =
  sub_ref :: nat
  sub_topic :: string
  sub_msgType :: MessageType
  callbacks :: "callback list"
  pubListChan :: "string list list"

text \<open>The resolver is used through its \<^verbatim>\<open>remap\<close> method only, and is that function.\<close>

type_synonym nameResolver = "string \<Rightarrow> string"

text \<open>
  The fields of \<^verbatim>\<open>defaultNode\<close> that the functions below read or write (the listener, the
  handler, the channels, the locks, the wait group and the servers are left out).
  \<open>allocated\<close> counts the publishers and subscribers created so far and gives the next
  reference.
\<close>

record defaultNode =
  name :: string
  namespace :: string
  qualifiedName :: string
  masterURI :: string
  xmlrpcURI :: string
  subscribers :: "string \<rightharpoonup> defaultSubscriber"
  publishers :: "string \<rightharpoonup> defaultPublisher"
  logger :: Logger
  ok :: bool
  logDir :: string
  hostname :: string
  listenIP :: string
  homeDir :: string
  resolver :: nameResolver
  nonRosArgs :: "string list"
  allocated :: nat

definition errorStatus :: int where "errorStatus = -1"
definition failureStatus :: int where "failureStatus = 0"
definition successStatus :: int where "successStatus = 1"

text \<open>
  Modelled from the spec: \<^verbatim>\<open>buildRosAPIResult\<close> is not in \<^verbatim>\<open>node.go\<close>; every response is
  the 3-tuple of status code, message and value.
\<close>

definition buildRosAPIResult :: "int \<Rightarrow> string \<Rightarrow> xvalue \<Rightarrow> xvalue" where
  "buildRosAPIResult code message val = XArray [XInt code, XStr message, val]"

subsection \<open>Names\<close>

text \<open>
  Modelled from the spec: the name resolver is not in \<^verbatim>\<open>node.go\<close>.  A name that begins
  with \<open>/\<close> is returned as it is, one that begins with \<open>~\<close> is put under namespace and
  node name, any other under the namespace, duplicate \<open>/\<close> collapsed.
\<close>

fun collapse :: "string \<Rightarrow> string" where
  "collapse (a # b # cs) =
     (if a = CHR ''/'' \<and> b = CHR ''/'' then collapse (b # cs) else a # collapse (b # cs))"
| "collapse cs = cs"

definition resolve :: "string \<Rightarrow> string \<Rightarrow> string \<Rightarrow> string" where
  "resolve ns node_name n =
     (if strings_HasPrefix n ''/'' then n
      else if strings_HasPrefix n ''~'' then collapse (ns @ ''/'' @ node_name @ ''/'' @ drop 1 n)
      else collapse (ns @ ''/'' @ n))"

text \<open>
  Modelled from the spec: \<^verbatim>\<open>remap\<close> resolves the name and then substitutes through the
  remapping table, whose keys and values were resolved when the resolver was made.
\<close>

definition newNameResolver :: "string \<Rightarrow> string \<Rightarrow> NameMap \<Rightarrow> nameResolver" where
  "newNameResolver ns node_name remapping =
     (let table = map (\<lambda>(k, v). (resolve ns node_name k, resolve ns node_name v)) remapping
      in (\<lambda>n. case map_of table (resolve ns node_name n) of
                  Some v \<Rightarrow> v
                | None \<Rightarrow> resolve ns node_name n))"

subsection \<open>Construction\<close>

text \<open>The loop of \<^verbatim>\<open>newDefaultNode\<close> that sets the parameters given as arguments.\<close>

fun setParams :: "sys \<Rightarrow> string \<Rightarrow> string \<Rightarrow> (string \<times> string) list \<Rightarrow> string option \<times> rpc list" where
  "setParams sy uri caller [] = (None, [])"
| "setParams sy uri caller ((k, v) # kvs) =
     (let call = (uri, ''setParam'', [XStr caller, XStr k, XStr v])
      in case snd (callRosAPI sy call) of
           Some err \<Rightarrow> (Some err, [call])
         | None \<Rightarrow> (case setParams sy uri caller kvs of (r, calls) \<Rightarrow> (r, call # calls)))"

text \<open>
  The first part of \<^verbatim>\<open>newDefaultNode\<close>: the fields of the node from the qualified node
  name, the environment and the arguments (no call is made yet, and nothing can fail).
\<close>

definition configureNode ::
  "sys \<Rightarrow> string \<Rightarrow> string \<Rightarrow> NameMap \<Rightarrow> NameMap \<Rightarrow> string list \<Rightarrow> defaultNode" where
  "configureNode sy ns0 nodeName remapping specials rest =
     (let homeDir1 = filepath_Join sy (getenv sy ''HOME'') ''.ros'';
          homeDir2 = (if length (getenv sy ''ROS_HOME'') > 0 then getenv sy ''ROS_HOME'' else homeDir1);
          name1 = (case map_of specials ''__name'' of Some v \<Rightarrow> v | None \<Rightarrow> nodeName);
          ns1 = (if length (getenv sy ''ROS_NAMESPACE'') > 0 then getenv sy ''ROS_NAMESPACE'' else ns0);
          ns2 = (case map_of specials ''__ns'' of Some v \<Rightarrow> v | None \<Rightarrow> ns1);
          logDir1 = filepath_Join sy homeDir2 ''log'';
          logDir2 = (if length (getenv sy ''ROS_LOG_DIR'') > 0 then getenv sy ''ROS_LOG_DIR'' else logDir1);
          logDir3 = (case map_of specials ''__log'' of Some v \<Rightarrow> v | None \<Rightarrow> logDir2);
          hostLocal =
            (case map_of specials ''__hostname'' of
               Some v \<Rightarrow> (v, v = ''localhost'')
             | None \<Rightarrow>
                (case map_of specials ''__ip'' of
                   Some v \<Rightarrow> (v, v = ''::1'' \<or> strings_HasPrefix v ''127.'')
                 | None \<Rightarrow> determineHost sy));
          ip = (if snd hostLocal then ''127.0.0.1'' else ''0.0.0.0'');
          master = (case map_of specials ''__master'' of
                      Some v \<Rightarrow> v | None \<Rightarrow> getenv sy ''ROS_MASTER_URI'');
          qualified = (if length ns2 = 1 then ns2 @ name1 else ns2 @ ''/'' @ name1)
      in \<lparr> name = name1, namespace = ns2, qualifiedName = qualified,
           masterURI = master, xmlrpcURI = [],
           subscribers = Map.empty, publishers = Map.empty,
           logger = NewDefaultLogger sy, ok = True,
           logDir = logDir3, hostname = fst hostLocal, listenIP = ip, homeDir = homeDir2,
           resolver = newNameResolver ns2 name1 remapping,
           nonRosArgs = rest, allocated = 0 \<rparr>)"

text \<open>
  \<^verbatim>\<open>newDefaultNode\<close>, up to the point where the XML-RPC server is started; the result comes
  with the calls made to the Master, in order.
\<close>

definition newDefaultNode :: "sys \<Rightarrow> string \<Rightarrow> string list \<Rightarrow> (failure + defaultNode) \<times> rpc list" where
  "newDefaultNode sy given args =
     (case qualifyNodeName sy given of
        Inl err \<Rightarrow> (Inl (Error err), [])
      | Inr (ns0, nodeName) \<Rightarrow>
         (case processArguments args of (remapping, params, specials, rest) \<Rightarrow>
           let node = configureNode sy ns0 nodeName remapping specials rest
           in case setParams sy (masterURI node) (qualifiedName node) (rangeNameMap sy params) of
                (Some err, calls) \<Rightarrow> (Inl (Error err), calls)
              | (None, calls) \<Rightarrow>
                 (case net_Listen sy (listenIP node @ '':0'') of
                    Inl err \<Rightarrow>
                      (if fatalExits (logger node) then (Inl Exit, calls)
                       else (Inl (Error err), calls))
                  | Inr addr \<Rightarrow>
                     (case net_SplitHostPort sy addr of
                        Inl err \<Rightarrow> (Inl (Error err), calls)
                      | Inr (_, port) \<Rightarrow>
                          (Inr (node\<lparr> xmlrpcURI := ''http://'' @ hostname node @ '':'' @ port \<rparr>),
                           calls)))))"

subsection \<open>The slave API: requestTopic\<close>

text \<open>
  \<^verbatim>\<open>strconv.ParseInt(s, 10, 32)\<close>: an optional sign, then decimal digits only, the value
  within 32 bits.  The digits are read from the left, as \<^verbatim>\<open>ParseUint\<close> does: the first byte
  that is not a digit is a syntax error, the first digit that takes the value beyond 32
  bits without sign a range error, whichever comes first.  Of the error only the kind is
  kept.
\<close>

fun parseDigits :: "int \<Rightarrow> string \<Rightarrow> string + int" where
  "parseDigits n [] = Inr n"
| "parseDigits n (c # cs) =
     (if c \<notin> set ''0123456789'' then Inl ''invalid syntax''
      else if 10 * n + (of_char c - 48) > 2 ^ 32 - 1 then Inl ''value out of range''
      else parseDigits (10 * n + (of_char c - 48)) cs)"

definition strconv_ParseInt32 :: "string \<Rightarrow> string + int" where
  "strconv_ParseInt32 s =
     (let (neg, ds) = (case s of
                         [] \<Rightarrow> (False, [])
                       | c # cs \<Rightarrow> if c = CHR ''+'' then (False, cs)
                                  else if c = CHR ''-'' then (True, cs) else (False, s))
      in if ds = [] then Inl ''invalid syntax''
         else (case parseDigits 0 ds of
                 Inl err \<Rightarrow> Inl err
               | Inr n \<Rightarrow>
                   if neg then (if n > 2 ^ 31 then Inl ''value out of range'' else Inr (- n))
                   else (if n \<ge> 2 ^ 31 then Inl ''value out of range'' else Inr n)))"

text \<open>
  The loop of \<^verbatim>\<open>requestTopic\<close> over the offered protocols.  The two type assertions and
  the index \<^verbatim>\<open>protocolParams[0]\<close> panic when the entry is not a non-empty array that starts
  with a string.
\<close>

fun selectProtocol :: "defaultPublisher \<Rightarrow> xvalue list \<Rightarrow> failure + xvalue list" where
  "selectProtocol pub [] = Inr []"
| "selectProtocol pub (v # vs) =
     (case v of
        XArray protocolParams \<Rightarrow>
          (case protocolParams of
             [] \<Rightarrow> Inl (Panic ''index out of range'')
           | XStr protocolName # _ \<Rightarrow>
               if protocolName = ''TCPROS'' then
                 (case hostAndPort pub of (host, portStr) \<Rightarrow>
                    (case strconv_ParseInt32 portStr of
                       Inl err \<Rightarrow> Inl (Error err)
                     | Inr port \<Rightarrow> Inr [XStr ''TCPROS'', XStr host, XInt port]))
               else selectProtocol pub vs
           | _ # _ \<Rightarrow> Inl (Panic ''interface conversion''))
      | _ \<Rightarrow> Inl (Panic ''interface conversion''))"

definition requestTopic :: "defaultNode \<Rightarrow> string \<Rightarrow> string \<Rightarrow> xvalue list \<Rightarrow> failure + xvalue" where
  "requestTopic node callerID topic protocols =
     (case publishers node topic of
        None \<Rightarrow> Inr (buildRosAPIResult failureStatus ''No such topic'' (XInt 0))
      | Some pub \<Rightarrow>
         (case selectProtocol pub protocols of
            Inl f \<Rightarrow> Inl f
          | Inr selectedProtocol \<Rightarrow>
              Inr (buildRosAPIResult successStatus ''Success'' (XArray selectedProtocol))))"

subsection \<open>Publishers and subscribers\<close>

text \<open>
  Modelled from the spec: \<^verbatim>\<open>newDefaultPublisher\<close> is not in \<^verbatim>\<open>node.go\<close>; a publisher
  keeps its topic, type and callbacks and owns a TCP listener.
\<close>

definition newDefaultPublisher ::
  "sys \<Rightarrow> defaultNode \<Rightarrow> string \<Rightarrow> MessageType \<Rightarrow> callback option \<Rightarrow> callback option \<Rightarrow> defaultPublisher" where
  "newDefaultPublisher sy node topic msgType cc dc =
     \<lparr> pub_ref = allocated node, pub_topic = topic, pub_msgType = msgType,
       connectCallback = cc, disconnectCallback = dc, hostAndPort = newListener sy topic \<rparr>"

text \<open>
  \<^verbatim>\<open>NewPublisherWithCallbacks\<close>: the publisher, the node after the call, and the calls made
  to the Master.  The map is read at \<open>topic\<close> and written at the remapped name.
\<close>

definition NewPublisherWithCallbacks ::
  "sys \<Rightarrow> defaultNode \<Rightarrow> string \<Rightarrow> MessageType \<Rightarrow> callback option \<Rightarrow> callback option \<Rightarrow>
   (failure + defaultPublisher \<times> defaultNode) \<times> rpc list" where
  "NewPublisherWithCallbacks sy node topic msgType cc dc =
     (let nm = resolver node topic
      in case publishers node topic of
           Some pub \<Rightarrow> (Inr (pub, node), [])
         | None \<Rightarrow>
            (let call = (masterURI node, ''registerPublisher'',
                         [XStr (qualifiedName node), XStr nm, XStr (mt_Name msgType), XStr (xmlrpcURI node)])
             in if snd (callRosAPI sy call) \<noteq> None \<and> fatalExits (logger node) then (Inl Exit, [call])
                else
                  (let pub = newDefaultPublisher sy node nm msgType cc dc
                   in (Inr (pub, node\<lparr> publishers := (publishers node)(nm \<mapsto> pub),
                                      allocated := Suc (allocated node) \<rparr>), [call]))))"

definition NewPublisher ::
  "sys \<Rightarrow> defaultNode \<Rightarrow> string \<Rightarrow> MessageType \<Rightarrow> (failure + defaultPublisher \<times> defaultNode) \<times> rpc list" where
  "NewPublisher sy node topic msgType =
     NewPublisherWithCallbacks sy node (resolver node topic) msgType None None"

text \<open>
  Modelled from the spec: \<^verbatim>\<open>newDefaultSubscriber\<close> is not in \<^verbatim>\<open>node.go\<close>; a subscriber
  keeps its topic, its type and the ordered sequence of its callbacks, and has a channel
  for publisher lists.
\<close>

definition newDefaultSubscriber :: "nat \<Rightarrow> string \<Rightarrow> MessageType \<Rightarrow> callback \<Rightarrow> defaultSubscriber" where
  "newDefaultSubscriber r topic msgType cb =
     \<lparr> sub_ref = r, sub_topic = topic, sub_msgType = msgType, callbacks = [cb], pubListChan = [] \<rparr>"

text \<open>
  The loop of \<^verbatim>\<open>NewSubscriber\<close> over the list the Master returned: an item that is not a
  string is fatal; when \<^verbatim>\<open>Fatal\<close> comes back the empty string is appended.
\<close>

fun publisherList :: "bool \<Rightarrow> xvalue list \<Rightarrow> string list option" where
  "publisherList ex [] = Some []"
| "publisherList ex (item # items) =
     (case item of
        XStr s \<Rightarrow> map_option ((#) s) (publisherList ex items)
      | _ \<Rightarrow> if ex then None else map_option ((#) []) (publisherList ex items))"

text \<open>
  \<^verbatim>\<open>NewSubscriber\<close>.  When the Master's answer is \<^verbatim>\<open>nil\<close> and \<^verbatim>\<open>Fatalf\<close> came back,
  \<^verbatim>\<open>reflect.TypeOf(result).String()\<close> panics.
\<close>

definition NewSubscriber ::
  "sys \<Rightarrow> defaultNode \<Rightarrow> string \<Rightarrow> MessageType \<Rightarrow> callback \<Rightarrow>
   (failure + defaultSubscriber \<times> defaultNode) \<times> rpc list" where
  "NewSubscriber sy node topic msgType cb =
     (let nm = resolver node topic
      in case subscribers node nm of
           Some sub \<Rightarrow>
             (let sub' = sub\<lparr> callbacks := callbacks sub @ [cb] \<rparr>
              in (Inr (sub', node\<lparr> subscribers := (subscribers node)(nm \<mapsto> sub') \<rparr>), []))
         | None \<Rightarrow>
            (let call = (masterURI node, ''registerSubscriber'',
                         [XStr (qualifiedName node), XStr nm, XStr (mt_Name msgType), XStr (xmlrpcURI node)]);
                 (result, err) = callRosAPI sy call;
                 ex = fatalExits (logger node)
             in if err \<noteq> None \<and> ex then (Inl Exit, [call])
                else
                  (case (case result of
                           XArray l \<Rightarrow> Inr l
                         | XNil \<Rightarrow> Inl (Panic ''nil pointer dereference'')
                         | _ \<Rightarrow> if ex then Inl Exit else Inr []) of
                     Inl f \<Rightarrow> (Inl f, [call])
                   | Inr l \<Rightarrow>
                      (case publisherList ex l of
                         None \<Rightarrow> (Inl Exit, [call])
                       | Some pubs \<Rightarrow>
                          (let sub = (newDefaultSubscriber (allocated node) nm msgType cb)
                                       \<lparr> pubListChan := [pubs] \<rparr>
                           in (Inr (sub, node\<lparr> subscribers := (subscribers node)(nm \<mapsto> sub),
                                              allocated := Suc (allocated node) \<rparr>), [call]))))))"

section \<open>Message definitions\<close>

abbreviation nl :: string where
  "nl \<equiv> [CHR 0x0A]"

text \<open>
  \<^verbatim>\<open>strings.Trim(s, cutset)\<close>: \<open>s\<close> without the leading and trailing bytes that are in
  \<open>cutset\<close>.
\<close>

definition strings_Trim :: "string \<Rightarrow> string \<Rightarrow> string" where
  "strings_Trim s cutset =
     rev (dropWhile (\<lambda>c. c \<in> set cutset) (rev (dropWhile (\<lambda>c. c \<in> set cutset) s)))"

text \<open>
  Modelled from the spec: the types \<^verbatim>\<open>Field\<close>, \<^verbatim>\<open>Constant\<close> and \<^verbatim>\<open>MsgSpec\<close> are not in
  the loader's file.  A field is package, type, name and array kind; a constant is type,
  name and value text; a message is package, short name, full name, raw text, fields,
  constants and MD5.
\<close>

datatype array_kind = Scalar | Fixed nat | Unbounded

record Field =
  f_Package :: string
  f_Type :: string
  f_Name :: string
  f_Array :: array_kind

record Constant =
  c_Type :: string
  c_Name :: string
  c_ValueText :: string

record MsgSpec =
  Package :: string
  ShortName :: string
  FullName :: string
  Text :: string
  Fields :: "Field list"
  Constants :: "Constant list"
  MD5Sum :: string

record SrvSpec =
  srv_Package :: string
  srv_ShortName :: string
  srv_FullName :: string
  srv_Text :: string
  srv_MD5Sum :: string
  Request :: MsgSpec
  Response :: MsgSpec

record ActionSpec =
  act_Package :: string
  act_ShortName :: string
  act_FullName :: string
  act_Text :: string
  act_MD5Sum :: string
  Goal :: MsgSpec
  Feedback :: MsgSpec
  Result :: MsgSpec
  ActionGoal :: MsgSpec
  ActionFeedback :: MsgSpec
  ActionResult :: MsgSpec

text \<open>
  An \<^verbatim>\<open>error\<close> of the loader: made by \<^verbatim>\<open>fmt.Errorf\<close> or handed on from a helper (its
  message), or made by \<^verbatim>\<open>NewSyntaxError\<close> from full name, line number and message.
\<close>

datatype error = Errorf string | NewSyntaxError string nat string

text \<open>
  What the loader uses and its file does not define: the digest (\<open>md5hex\<close> is
  \<^verbatim>\<open>hex.EncodeToString\<close> of the MD5 sum of the bytes), the helpers that take a full name
  and a line apart, the canonical text of a field, and the file system.  An error of a
  helper is the \<open>Inl\<close> of its message.
\<close>

record deps =
  md5hex :: "string \<Rightarrow> string"
  packageResourceName :: "string \<Rightarrow> string + string \<times> string"
  stripComment :: "string \<Rightarrow> string"
  loadConstantLine :: "string \<Rightarrow> string + Constant"
  loadFieldLine :: "string \<Rightarrow> string \<Rightarrow> string + Field"
  Field_String :: "Field \<Rightarrow> string"
  ioutil_ReadFile :: "string \<Rightarrow> string + string"

record MsgContext =
  msgPathMap :: "string \<rightharpoonup> string"
  srvPathMap :: "string \<rightharpoonup> string"
  actionPathMap :: "string \<rightharpoonup> string"
  msgRegistry :: "string \<rightharpoonup> MsgSpec"

text \<open>Modelled from the spec: a constant line is recognised by the presence of \<open>=\<close>.\<close>

definition ConstChar :: string where
  "ConstChar = ''=''"

text \<open>
  Modelled from the spec: \<^verbatim>\<open>NewMsgSpec\<close> is not in the loader's file; it makes the message
  from its parts, the MD5 not yet computed.
\<close>

definition NewMsgSpec ::
  "Field list \<Rightarrow> Constant list \<Rightarrow> string \<Rightarrow> string \<Rightarrow> string \<Rightarrow> string \<Rightarrow> MsgSpec" where
  "NewMsgSpec fds cns text fullname packageName shortName =
     \<lparr> Package = packageName, ShortName = shortName, FullName = fullname, Text = text,
       Fields = fds, Constants = cns, MD5Sum = [] \<rparr>"

text \<open>
  The loop of \<^verbatim>\<open>LoadMsgFromString\<close> over the lines, from line number \<open>lineno\<close> on, with the
  fields and constants found so far.
\<close>

fun parseLines ::
  "deps \<Rightarrow> string \<Rightarrow> string \<Rightarrow> nat \<Rightarrow> string list \<Rightarrow> Field list \<Rightarrow> Constant list \<Rightarrow>
   error + Field list \<times> Constant list" where
  "parseLines d packageName fullname lineno [] fds cns = Inr (fds, cns)"
| "parseLines d packageName fullname lineno (origLine # ls) fds cns =
     (let cleanLine = stripComment d origLine
      in if length cleanLine = 0 then
           parseLines d packageName fullname (Suc lineno) ls fds cns
         else if strings_Contains cleanLine ConstChar then
           (case loadConstantLine d origLine of
              Inl e \<Rightarrow> Inl (NewSyntaxError fullname lineno e)
            | Inr constant \<Rightarrow>
                parseLines d packageName fullname (Suc lineno) ls fds (cns @ [constant]))
         else
           (case loadFieldLine d origLine packageName of
              Inl e \<Rightarrow> Inl (NewSyntaxError fullname lineno e)
            | Inr field \<Rightarrow>
                parseLines d packageName fullname (Suc lineno) ls (fds @ [field]) cns))"

text \<open>
  Computing an MD5 text can load the message of a field from its file, which computes the
  MD5 of that message in turn, and a file that names itself never lets this end.  So
  \<^verbatim>\<open>ComputeMD5Text\<close> takes fuel, and \<open>None\<close> is the call that does not return.  The
  functions it calls and that call it back are written first, over \<open>cmt\<close>, the
  \<^verbatim>\<open>ComputeMD5Text\<close> they call; then \<^verbatim>\<open>ComputeMD5Text\<close> by recursion on the fuel, and
  they over it.  Each gives its result with the context after it, since loading registers.
\<close>

type_synonym 'a loaded = "((error + 'a) \<times> MsgContext) option"

definition ComputeMsgMD5_over ::
  "deps \<Rightarrow> (MsgContext \<Rightarrow> MsgSpec \<Rightarrow> string loaded) \<Rightarrow> MsgContext \<Rightarrow> MsgSpec \<Rightarrow> string loaded" where
  "ComputeMsgMD5_over d cmt ctx spec =
     (case cmt ctx spec of
        None \<Rightarrow> None
      | Some (Inl err, ctx1) \<Rightarrow> Some (Inl err, ctx1)
      | Some (Inr md5text, ctx1) \<Rightarrow> Some (Inr (md5hex d md5text), ctx1))"

definition LoadMsgFromString_over ::
  "deps \<Rightarrow> (MsgContext \<Rightarrow> MsgSpec \<Rightarrow> string loaded) \<Rightarrow> MsgContext \<Rightarrow> string \<Rightarrow> string \<Rightarrow>
   MsgSpec loaded" where
  "LoadMsgFromString_over d cmt ctx text fullname =
     (case packageResourceName d fullname of
        Inl e \<Rightarrow> Some (Inl (Errorf e), ctx)
      | Inr (packageName, shortName) \<Rightarrow>
         (case parseLines d packageName fullname 0 (strings_Split text nl) [] [] of
            Inl e \<Rightarrow> Some (Inl e, ctx)
          | Inr (fds, cns) \<Rightarrow>
             (case ComputeMsgMD5_over d cmt ctx
                     (NewMsgSpec fds cns text fullname packageName shortName) of
                None \<Rightarrow> None
              | Some (Inl err, ctx1) \<Rightarrow> Some (Inl err, ctx1)
              | Some (Inr md5sum, ctx1) \<Rightarrow>
                  Some (Inr ((NewMsgSpec fds cns text fullname packageName shortName)
                               \<lparr> MD5Sum := md5sum \<rparr>),
                        ctx1\<lparr> msgRegistry := (msgRegistry ctx1)
                                 (fullname \<mapsto> (NewMsgSpec fds cns text fullname packageName shortName)
                                                \<lparr> MD5Sum := md5sum \<rparr>) \<rparr>))))"

definition LoadMsgFromFile_over ::
  "deps \<Rightarrow> (MsgContext \<Rightarrow> MsgSpec \<Rightarrow> string loaded) \<Rightarrow> MsgContext \<Rightarrow> string \<Rightarrow> string \<Rightarrow>
   MsgSpec loaded" where
  "LoadMsgFromFile_over d cmt ctx filePath fullname =
     (case ioutil_ReadFile d filePath of
        Inl e \<Rightarrow> Some (Inl (Errorf e), ctx)
      | Inr text \<Rightarrow> LoadMsgFromString_over d cmt ctx text fullname)"

text \<open>
  The error of \<^verbatim>\<open>LoadMsg\<close> for a full name that is neither registered nor in the path
  map; the name is put between backquotes.
\<close>

definition notFound :: "string \<Rightarrow> error" where
  "notFound fullname =
     Errorf (''Message definition of '' @ [CHR 0x60] @ fullname @ [CHR 0x60] @ '' is not found'')"

definition LoadMsg_over ::
  "deps \<Rightarrow> (MsgContext \<Rightarrow> MsgSpec \<Rightarrow> string loaded) \<Rightarrow> MsgContext \<Rightarrow> string \<Rightarrow> MsgSpec loaded" where
  "LoadMsg_over d cmt ctx fullname =
     (case msgRegistry ctx fullname of
        Some spec \<Rightarrow> Some (Inr spec, ctx)
      | None \<Rightarrow>
         (case msgPathMap ctx fullname of
            Some path \<Rightarrow>
              (case LoadMsgFromFile_over d cmt ctx path fullname of
                 None \<Rightarrow> None
               | Some (Inl err, ctx1) \<Rightarrow> Some (Inl err, ctx1)
               | Some (Inr spec, ctx1) \<Rightarrow>
                   Some (Inr spec, ctx1\<lparr> msgRegistry := (msgRegistry ctx1)(fullname \<mapsto> spec) \<rparr>))
          | None \<Rightarrow>
              Some (Inl (notFound fullname), ctx)))"

text \<open>
  The loop of \<^verbatim>\<open>ComputeMD5Text\<close> over the fields, \<open>buf\<close> the buffer.  When the message of
  a field does not load, or its MD5 is not computed, the function returns the empty text
  and no error.
\<close>

fun md5Fields ::
  "deps \<Rightarrow> (MsgContext \<Rightarrow> MsgSpec \<Rightarrow> string loaded) \<Rightarrow> MsgContext \<Rightarrow> Field list \<Rightarrow> string \<Rightarrow>
   string loaded" where
  "md5Fields d cmt ctx [] buf = Some (Inr (strings_Trim buf nl), ctx)"
| "md5Fields d cmt ctx (f # fs) buf =
     (if f_Package f = [] then md5Fields d cmt ctx fs (buf @ Field_String d f @ nl)
      else
        (case LoadMsg_over d cmt ctx (f_Package f @ ''/'' @ f_Type f) of
           None \<Rightarrow> None
         | Some (Inl err, ctx1) \<Rightarrow> Some (Inr [], ctx1)
         | Some (Inr subspec, ctx1) \<Rightarrow>
            (case ComputeMsgMD5_over d cmt ctx1 subspec of
               None \<Rightarrow> None
             | Some (Inl err, ctx2) \<Rightarrow> Some (Inr [], ctx2)
             | Some (Inr submd5, ctx2) \<Rightarrow>
                 md5Fields d cmt ctx2 fs (buf @ submd5 @ '' '' @ f_Name f @ nl))))"

fun ComputeMD5Text :: "deps \<Rightarrow> nat \<Rightarrow> MsgContext \<Rightarrow> MsgSpec \<Rightarrow> string loaded" where
  "ComputeMD5Text d 0 ctx spec = None"
| "ComputeMD5Text d (Suc n) ctx spec =
     md5Fields d (ComputeMD5Text d n) ctx (Fields spec)
       (concat (map (\<lambda>c. c_Type c @ '' '' @ c_Name c @ ''='' @ c_ValueText c @ nl) (Constants spec)))"

definition ComputeMsgMD5 :: "deps \<Rightarrow> nat \<Rightarrow> MsgContext \<Rightarrow> MsgSpec \<Rightarrow> string loaded" where
  "ComputeMsgMD5 d n = ComputeMsgMD5_over d (ComputeMD5Text d n)"

definition LoadMsgFromString :: "deps \<Rightarrow> nat \<Rightarrow> MsgContext \<Rightarrow> string \<Rightarrow> string \<Rightarrow> MsgSpec loaded" where
  "LoadMsgFromString d n = LoadMsgFromString_over d (ComputeMD5Text d n)"

definition LoadMsgFromFile :: "deps \<Rightarrow> nat \<Rightarrow> MsgContext \<Rightarrow> string \<Rightarrow> string \<Rightarrow> MsgSpec loaded" where
  "LoadMsgFromFile d n = LoadMsgFromFile_over d (ComputeMD5Text d n)"

definition LoadMsg :: "deps \<Rightarrow> nat \<Rightarrow> MsgContext \<Rightarrow> string \<Rightarrow> MsgSpec loaded" where
  "LoadMsg d n = LoadMsg_over d (ComputeMD5Text d n)"

text \<open>
  Sequencing of two steps of a loader: the second runs on the value and the context of the
  first, unless the first did not return or returned an error.
\<close>

definition andThen :: "'a loaded \<Rightarrow> ('a \<Rightarrow> MsgContext \<Rightarrow> 'b loaded) \<Rightarrow> 'b loaded" where
  "andThen r k =
     (case r of
        None \<Rightarrow> None
      | Some (Inl err, ctx) \<Rightarrow> Some (Inl err, ctx)
      | Some (Inr x, ctx) \<Rightarrow> k x ctx)"

text \<open>The error of both splitters: \<^verbatim>\<open>fmt.Errorf("Syntax error: missing '---'")\<close>.\<close>

definition missingSeparator :: error where
  "missingSeparator = Errorf (''Syntax error: missing '' @ [CHR 0x27] @ ''---'' @ [CHR 0x27])"

definition ComputeSrvMD5 :: "deps \<Rightarrow> nat \<Rightarrow> MsgContext \<Rightarrow> SrvSpec \<Rightarrow> string loaded" where
  "ComputeSrvMD5 d n ctx spec =
     andThen (ComputeMD5Text d n ctx (Request spec)) (\<lambda>reqText ctx.
     andThen (ComputeMD5Text d n ctx (Response spec)) (\<lambda>resText ctx.
     Some (Inr (md5hex d (reqText @ resText)), ctx)))"

definition ComputeActionMD5 :: "deps \<Rightarrow> nat \<Rightarrow> MsgContext \<Rightarrow> ActionSpec \<Rightarrow> string loaded" where
  "ComputeActionMD5 d n ctx spec =
     andThen (ComputeMD5Text d n ctx (ActionGoal spec)) (\<lambda>goalText ctx.
     andThen (ComputeMD5Text d n ctx (ActionFeedback spec)) (\<lambda>feedbackText ctx.
     andThen (ComputeMD5Text d n ctx (ActionResult spec)) (\<lambda>resultText ctx.
     Some (Inr (md5hex d (goalText @ feedbackText @ resultText)), ctx))))"

definition LoadSrvFromString :: "deps \<Rightarrow> nat \<Rightarrow> MsgContext \<Rightarrow> string \<Rightarrow> string \<Rightarrow> SrvSpec loaded" where
  "LoadSrvFromString d n ctx text fullname =
     (case packageResourceName d fullname of
        Inl e \<Rightarrow> Some (Inl (Errorf e), ctx)
      | Inr (packageName, shortName) \<Rightarrow>
         (case strings_Split text ''---'' of
            [reqText, resText] \<Rightarrow>
              andThen (LoadMsgFromString d n ctx reqText (fullname @ ''Request'')) (\<lambda>reqSpec ctx.
              andThen (LoadMsgFromString d n ctx resText (fullname @ ''Response'')) (\<lambda>resSpec ctx.
              andThen (ComputeSrvMD5 d n ctx
                         \<lparr> srv_Package = packageName, srv_ShortName = shortName,
                           srv_FullName = fullname, srv_Text = text, srv_MD5Sum = [],
                           Request = reqSpec, Response = resSpec \<rparr>) (\<lambda>md5sum ctx.
              Some (Inr \<lparr> srv_Package = packageName, srv_ShortName = shortName,
                          srv_FullName = fullname, srv_Text = text, srv_MD5Sum = md5sum,
                          Request = reqSpec, Response = resSpec \<rparr>, ctx))))
          | _ \<Rightarrow> Some (Inl missingSeparator, ctx)))"

definition LoadActionFromString :: "deps \<Rightarrow> nat \<Rightarrow> MsgContext \<Rightarrow> string \<Rightarrow> string \<Rightarrow> ActionSpec loaded" where
  "LoadActionFromString d n ctx text fullname =
     (case packageResourceName d fullname of
        Inl e \<Rightarrow> Some (Inl (Errorf e), ctx)
      | Inr (packageName, shortName) \<Rightarrow>
         (case strings_Split text ''---'' of
            [goalText, resultText, feedbackText] \<Rightarrow>
              andThen (LoadMsgFromString d n ctx goalText (fullname @ ''Goal'')) (\<lambda>goalSpec ctx.
              andThen (LoadMsgFromString d n ctx
                         (''Header header'' @ nl @ ''actionlib_msgs/GoalID goal_id'' @ nl @
                          fullname @ ''Goal goal'' @ nl)
                         (fullname @ ''ActionGoal'')) (\<lambda>actionGoalSpec ctx.
              andThen (LoadMsgFromString d n ctx feedbackText (fullname @ ''Feedback'')) (\<lambda>feedbackSpec ctx.
              andThen (LoadMsgFromString d n ctx
                         (''Header header'' @ nl @ ''actionlib_msgs/GoalStatus status'' @ nl @
                          fullname @ ''Feedback feedback'')
                         (fullname @ ''ActionFeedback'')) (\<lambda>actionFeedbackSpec ctx.
              andThen (LoadMsgFromString d n ctx resultText (fullname @ ''Result'')) (\<lambda>resultSpec ctx.
              andThen (LoadMsgFromString d n ctx
                         (''Header header'' @ nl @ ''actionlib_msgs/GoalStatus status'' @ nl @
                          fullname @ ''Result result'')
                         (fullname @ ''ActionResult'')) (\<lambda>actionResultSpec ctx.
              andThen (ComputeActionMD5 d n ctx
                         \<lparr> act_Package = packageName, act_ShortName = shortName,
                           act_FullName = fullname, act_Text = text, act_MD5Sum = [],
                           Goal = goalSpec, Feedback = feedbackSpec, Result = resultSpec,
                           ActionGoal = actionGoalSpec, ActionFeedback = actionFeedbackSpec,
                           ActionResult = actionResultSpec \<rparr>) (\<lambda>md5sum ctx.
              Some (Inr \<lparr> act_Package = packageName, act_ShortName = shortName,
                          act_FullName = fullname, act_Text = text, act_MD5Sum = md5sum,
                          Goal = goalSpec, Feedback = feedbackSpec, Result = resultSpec,
                          ActionGoal = actionGoalSpec, ActionFeedback = actionFeedbackSpec,
                          ActionResult = actionResultSpec \<rparr>, ctx))))))))
          | _ \<Rightarrow> Some (Inl missingSeparator, ctx)))"

section \<open>An environment to run the node in\<close>

text \<open>
  A Master that accepts every call and has no publisher for any topic, a logger whose
  \<^verbatim>\<open>Fatal\<close> ends the process, and a node name qualified into the root namespace.
\<close>

definition exampleSys :: sys where
  "exampleSys =
     \<lparr> getenv = (\<lambda>v. if v = ''ROS_MASTER_URI'' then ''http://localhost:11311''
                      else if v = ''HOME'' then ''/home/user'' else []),
       filepath_Join = (\<lambda>a b. a @ ''/'' @ b),
       qualifyNodeName = (\<lambda>n. Inr (''/'', n)),
       determineHost = (''localhost'', True),
       NewDefaultLogger = \<lparr> fatalExits = True \<rparr>,
       callRosAPI = (\<lambda>(uri, method, args).
                       if method = ''registerSubscriber'' then (XArray [], None) else (XInt 0, None)),
       rangeNameMap = (\<lambda>m. m),
       net_Listen = (\<lambda>a. Inr ''127.0.0.1:40000''),
       net_SplitHostPort = (\<lambda>a. Inr (''127.0.0.1'', ''40000'')),
       newListener = (\<lambda>t. (''localhost'', ''40001'')) \<rparr>"



text \<open>
  The name of an offered protocol: the string at the head of the entry, when the entry is
  an array that has one.
\<close>

fun protocolName :: "xvalue \<Rightarrow> string option" where
  "protocolName (XArray (XStr n # _)) = Some n"
| "protocolName _ = None"

text \<open>
  A node constructed in that environment with the remappings \<open>/a:=/b\<close> and \<open>/b:=/c\<close>, and
  the nodes after one call that creates a publisher or a subscriber.
\<close>

definition exampleNode :: defaultNode where
  "exampleNode = projr (fst (newDefaultNode exampleSys ''talker'' [''/a:=/b'', ''/b:=/c'']))"

definition MsgString :: MessageType where
  "MsgString = \<lparr> mt_Name = ''std_msgs/String'' \<rparr>"

definition exampleNode_a :: defaultNode where
  "exampleNode_a =
     snd (projr (fst (NewPublisherWithCallbacks exampleSys exampleNode ''/a'' MsgString None None)))"

definition exampleNode_chatter :: defaultNode where
  "exampleNode_chatter =
     snd (projr (fst (NewPublisherWithCallbacks exampleSys exampleNode ''chatter'' MsgString None None)))"

definition exampleNode_sub :: defaultNode where
  "exampleNode_sub = snd (projr (fst (NewSubscriber exampleSys exampleNode ''chatter'' MsgString 1)))"

definition exampleNode_slash :: defaultNode where
  "exampleNode_slash =
     snd (projr (fst (NewPublisherWithCallbacks exampleSys exampleNode ''/chatter'' MsgString None None)))"

section \<open>Helpers to run the loader with\<close>

text \<open>
  Modelled from the spec: the helpers of the loader are not in its file.  A comment begins
  at \<open>#\<close>; a constant line is type, name, \<open>=\<close> and the value text, trimmed; a field line is
  type and name, the type with \<open>[]\<close> or \<open>[N]\<close>; a type without a package is a primitive,
  \<open>Header\<close> of \<open>std_msgs\<close>, or of the package of the message.  The digest is kept symbolic:
  it shows the text that was hashed.  No file exists.
\<close>

definition trimSpace :: "string \<Rightarrow> string" where
  "trimSpace s = strings_Trim s '' ''"

definition fieldsOf :: "string \<Rightarrow> string list" where
  "fieldsOf s = filter (\<lambda>w. w \<noteq> []) (strings_Split s '' '')"

definition primitives :: "string list" where
  "primitives = [''bool'', ''int8'', ''uint8'', ''int16'', ''uint16'', ''int32'', ''uint32'',
     ''int64'', ''uint64'', ''float32'', ''float64'', ''string'', ''time'', ''duration'',
     ''char'', ''byte'']"

definition arrayOf :: "string \<Rightarrow> string \<times> array_kind" where
  "arrayOf t =
     (case strings_Cut t ''['' of
        None \<Rightarrow> (t, Scalar)
      | Some (base, r) \<Rightarrow>
          (if r = '']'' then (base, Unbounded)
           else (base, Fixed (foldl (\<lambda>a c. 10 * a + (of_char c - 48)) 0 (butlast r)))))"

definition exampleDeps :: deps where
  "exampleDeps =
     \<lparr> md5hex = (\<lambda>s. ''md5('' @ s @ '')''),
       packageResourceName =
         (\<lambda>n. case strings_Split n ''/'' of
                 [s] \<Rightarrow> Inr ([], s)
               | [p, s] \<Rightarrow> Inr (p, s)
               | _ \<Rightarrow> Inl (''Invalid name '' @ n)),
       stripComment = (\<lambda>l. trimSpace (hd (strings_Split l ''#''))),
       loadConstantLine =
         (\<lambda>l. case strings_Cut l ''='' of
                 None \<Rightarrow> Inl ''no value''
               | Some (left, right) \<Rightarrow>
                   (case fieldsOf left of
                      [t, n] \<Rightarrow> Inr \<lparr> c_Type = t, c_Name = n, c_ValueText = trimSpace right \<rparr>
                    | _ \<Rightarrow> Inl ''expected type and name'')),
       loadFieldLine =
         (\<lambda>l pkg. case fieldsOf (hd (strings_Split l ''#'')) of
                     [t, n] \<Rightarrow>
                       (case arrayOf t of (base, kind) \<Rightarrow>
                          (case strings_Cut base ''/'' of
                             Some (p, s) \<Rightarrow> Inr \<lparr> f_Package = p, f_Type = s, f_Name = n, f_Array = kind \<rparr>
                           | None \<Rightarrow>
                               if base \<in> set primitives
                               then Inr \<lparr> f_Package = [], f_Type = base, f_Name = n, f_Array = kind \<rparr>
                               else if base = ''Header''
                               then Inr \<lparr> f_Package = ''std_msgs'', f_Type = base, f_Name = n, f_Array = kind \<rparr>
                               else Inr \<lparr> f_Package = pkg, f_Type = base, f_Name = n, f_Array = kind \<rparr>))
                   | _ \<Rightarrow> Inl ''expected type and name''),
       Field_String =
         (\<lambda>f. f_Type f @
               (case f_Array f of Scalar \<Rightarrow> [] | Unbounded \<Rightarrow> ''[]''
                | Fixed k \<Rightarrow> ''['' @ replicate k (CHR ''?'') @ '']'') @ '' '' @ f_Name f),
       ioutil_ReadFile = (\<lambda>p. Inl (''open '' @ p @ '': no such file or directory'')) \<rparr>"

definition emptyContext :: MsgContext where
  "emptyContext = \<lparr> msgPathMap = Map.empty, srvPathMap = Map.empty, actionPathMap = Map.empty,
                    msgRegistry = Map.empty \<rparr>"

text \<open>A message with a field of type \<open>foo/Bar\<close>, which nothing defines.\<close>

definition unloadable :: MsgSpec where
  "unloadable =
     \<lparr> Package = ''pkg'', ShortName = ''M'', FullName = ''pkg/M'',
       Text = ''int32 a'' @ nl @ ''foo/Bar x'',
       Fields = [\<lparr> f_Package = [], f_Type = ''int32'', f_Name = ''a'', f_Array = Scalar \<rparr>,
                 \<lparr> f_Package = ''foo'', f_Type = ''Bar'', f_Name = ''x'', f_Array = Scalar \<rparr>],
       Constants = [], MD5Sum = [] \<rparr>"

text \<open>
  What is observed of a load: the MD5 of the message, or that the load failed.
\<close>

definition loadedMD5 :: "MsgSpec loaded \<Rightarrow> (unit + string) option" where
  "loadedMD5 r = map_option (\<lambda>(x, ctx). map_sum (\<lambda>err. ()) MD5Sum x) r"

text \<open>
  A context in which the messages that every action refers to are registered (the status
  without its constants), and the text of an action.
\<close>

definition exampleContext :: MsgContext where
  "exampleContext =
     emptyContext\<lparr> msgRegistry :=
       [''std_msgs/Header'' \<mapsto>
          NewMsgSpec [\<lparr> f_Package = [], f_Type = ''uint32'', f_Name = ''seq'', f_Array = Scalar \<rparr>,
                      \<lparr> f_Package = [], f_Type = ''time'', f_Name = ''stamp'', f_Array = Scalar \<rparr>,
                      \<lparr> f_Package = [], f_Type = ''string'', f_Name = ''frame_id'', f_Array = Scalar \<rparr>]
            [] (''uint32 seq'' @ nl @ ''time stamp'' @ nl @ ''string frame_id'')
            ''std_msgs/Header'' ''std_msgs'' ''Header'',
        ''actionlib_msgs/GoalID'' \<mapsto>
          NewMsgSpec [\<lparr> f_Package = [], f_Type = ''time'', f_Name = ''stamp'', f_Array = Scalar \<rparr>,
                      \<lparr> f_Package = [], f_Type = ''string'', f_Name = ''id'', f_Array = Scalar \<rparr>]
            [] (''time stamp'' @ nl @ ''string id'')
            ''actionlib_msgs/GoalID'' ''actionlib_msgs'' ''GoalID'',
        ''actionlib_msgs/GoalStatus'' \<mapsto>
          NewMsgSpec [\<lparr> f_Package = ''actionlib_msgs'', f_Type = ''GoalID'', f_Name = ''goal_id'', f_Array = Scalar \<rparr>,
                      \<lparr> f_Package = [], f_Type = ''uint8'', f_Name = ''status'', f_Array = Scalar \<rparr>,
                      \<lparr> f_Package = [], f_Type = ''string'', f_Name = ''text'', f_Array = Scalar \<rparr>]
            [] (''GoalID goal_id'' @ nl @ ''uint8 status'' @ nl @ ''string text'')
            ''actionlib_msgs/GoalStatus'' ''actionlib_msgs'' ''GoalStatus''] \<rparr>"

definition Fibonacci :: string where
  "Fibonacci = ''int32 order'' @ nl @ ''---'' @ nl @ ''int32[] sequence'' @ nl @ ''---'' @ nl @
               ''int32[] sequence''"


section \<open>Properties of splitting and of the arguments\<close>

lemma strings_Cut_leftmost:
  "s = a @ sep @ r \<Longrightarrow> \<exists>a' b'. strings_Cut s sep = Some (a', b') \<and> length a' \<le> length a"
proof (induction s arbitrary: a)
  case Nil
  then show ?case by simp
next
  case (Cons c cs)
  show ?case
  proof (cases "prefix sep (c # cs)")
    case True
    then show ?thesis by simp
  next
    case False
    with Cons.prems have "a \<noteq> []" by (auto simp: prefix_def)
    then obtain a2 where a: "a = c # a2" using Cons.prems by (cases a) auto
    with Cons.prems have "cs = a2 @ sep @ r" by simp
    from Cons.IH [OF this] obtain a' b' where "strings_Cut cs sep = Some (a', b')" "length a' \<le> length a2"
      by blast
    with False a show ?thesis by simp
  qed
qed

lemma strings_Contains_iff: "strings_Contains s sep \<longleftrightarrow> (\<exists>a b. s = a @ sep @ b)"
  unfolding strings_Contains_def
  using strings_Cut_leftmost [of s _ sep] strings_Cut_Some [of s sep] by fastforce

lemma strings_Split_once:
  "sep \<noteq> [] \<Longrightarrow> \<not> strings_Contains s sep \<Longrightarrow> strings_Split s sep = [s]"
  by (cases "strings_Cut s sep") (auto simp: strings_Split.simps strings_Contains_def)

lemma strings_Split_nonempty: "sep \<noteq> [] \<Longrightarrow> strings_Split s sep \<noteq> []"
  by (subst strings_Split.simps) (simp split: option.splits)

lemma strings_Split_length_1:
  "sep \<noteq> [] \<Longrightarrow> length (strings_Split s sep) = 1 \<longleftrightarrow> \<not> strings_Contains s sep"
  by (subst strings_Split.simps) (auto simp: strings_Contains_def strings_Split_nonempty split: option.splits)

lemma strings_Split_twice:
  assumes "sep \<noteq> []" and s: "s = a @ sep @ b @ sep @ c"
  shows "3 \<le> length (strings_Split s sep)"
proof -
  from strings_Cut_leftmost [of s a sep "b @ sep @ c"] s
  obtain a' b' where cut: "strings_Cut s sep = Some (a', b')" and le: "length a' \<le> length a"
    by auto
  from strings_Cut_Some [OF cut] have "s = a' @ sep @ b'" .
  then have "b' = drop (length a' + length sep) s" by simp
  also have "\<dots> = drop (length a' + length sep) (a @ sep @ b) @ sep @ c"
    using le by (simp add: s)
  finally have "strings_Contains b' sep" unfolding strings_Contains_iff by blast
  then obtain a2 b2 where cut2: "strings_Cut b' sep = Some (a2, b2)"
    by (auto simp: strings_Contains_def)
  have "strings_Split s sep = a' # a2 # strings_Split b2 sep"
    using assms(1) cut cut2 by (simp add: strings_Split.simps [of s] strings_Split.simps [of b'])
  moreover have "strings_Split b2 sep \<noteq> []" using assms(1) by (rule strings_Split_nonempty)
  ultimately show ?thesis by (cases "strings_Split b2 sep") auto
qed


lemma processArgument_cases:
  "processArgument (m, p, s, r) arg =
     (case strings_Split arg remap of
        [key, val] \<Rightarrow>
          if strings_HasPrefix key ''__'' then (m, p, AList.update key val s, r)
          else if strings_HasPrefix key ''_'' then (m, AList.update (drop 1 key) val p, s, r)
          else (AList.update key val m, p, s, r)
      | _ \<Rightarrow> (m, p, s, r @ [arg]))"
  by (simp add: processArgument_def)

lemma length_two_iff: "length xs = 2 \<longleftrightarrow> (\<exists>a b. xs = [a, b])"
  by (cases xs; cases "tl xs"; cases "tl (tl xs)") auto

lemma processArgument_passed:
  "length (strings_Split arg remap) \<noteq> 2 \<Longrightarrow> processArgument (m, p, s, r) arg = (m, p, s, r @ [arg])"
  by (auto simp: processArgument_cases length_two_iff split: list.splits)

lemma processArgument_classified:
  "length (strings_Split arg remap) = 2 \<Longrightarrow>
     snd (snd (snd (processArgument (m, p, s, r) arg))) = r \<and>
     processArgument (m, p, s, r) arg \<noteq> (m, p, s, r @ [arg])"
  by (auto simp: processArgument_cases length_two_iff split: list.splits)

lemma foldl_processArgument_rest:
  "snd (snd (snd (foldl processArgument (m, p, s, r) args))) =
     r @ filter (\<lambda>a. length (strings_Split a remap) \<noteq> 2) args"
proof (induction args arbitrary: m p s r)
  case Nil
  then show ?case by simp
next
  case (Cons a args)
  show ?case
  proof (cases "length (strings_Split a remap) = 2")
    case True
    obtain m' p' s' r' where st: "processArgument (m, p, s, r) a = (m', p', s', r')"
      by (cases "processArgument (m, p, s, r) a") auto
    with processArgument_classified [OF True, of m p s r] have "r' = r" by simp
    with st True Cons.IH [of m' p' s' r] show ?thesis by simp
  next
    case False
    with Cons.IH [of m p s "r @ [a]"] show ?thesis
      by (simp add: processArgument_passed)
  qed
qed

text \<open>
  Claim C10.  The arguments that \<^verbatim>\<open>processArguments\<close> passes through as non-ROS arguments
  are exactly those whose split at \<open>:=\<close> does not have two components, in their order.
  One iteration leaves the three tables alone for such a token and appends it, and leaves
  the non-ROS arguments alone for a token with two components.  A token with two
  occurrences of \<open>:=\<close> has at least three components, one with none has one.
\<close>

theorem processArguments_two_components:
  "snd (snd (snd (processArguments args))) =
     filter (\<lambda>a. length (strings_Split a remap) \<noteq> 2) args
   \<and> (length (strings_Split arg remap) \<noteq> 2 \<longrightarrow>
        processArgument (m, p, s, r) arg = (m, p, s, r @ [arg]))
   \<and> (length (strings_Split arg remap) = 2 \<longrightarrow>
        snd (snd (snd (processArgument (m, p, s, r) arg))) = r)
   \<and> (arg = a @ remap @ b @ remap @ c \<longrightarrow> 3 \<le> length (strings_Split arg remap))
   \<and> (\<not> strings_Contains arg remap \<longrightarrow> strings_Split arg remap = [arg])"
  using foldl_processArgument_rest [of "[]" "[]" "[]" "[]" args]
    processArgument_passed [of arg m p s r] processArgument_classified [of arg m p s r]
    strings_Split_twice [of remap arg a b c] strings_Split_once [of remap arg]
  by (simp add: processArguments_def remap_def)

lemmas eval_simps = exampleSys_def newDefaultNode_def configureNode_def processArguments_def processArgument_def
  strings_Split.simps remap_def strings_HasPrefix_def Let_def newNameResolver_def resolve_def
  strings_Contains_def

theorem processArguments_two_components_witness:
  "snd (snd (snd (processArguments [''a:=b:=c'', ''extra'', ''x:=y'']))) = [''a:=b:=c'', ''extra'']
   \<and> length (strings_Split ''a:=b:=c'' remap) \<noteq> 2
   \<and> processArgument ([], [], [], []) ''a:=b:=c'' = ([], [], [], [''a:=b:=c''])
   \<and> length (strings_Split ''x:=y'' remap) = 2
   \<and> snd (snd (snd (processArgument ([], [], [], [''extra'']) ''x:=y''))) = [''extra'']
   \<and> ''a:=b:=c'' = ''a'' @ remap @ ''b'' @ remap @ ''c''
   \<and> 3 \<le> length (strings_Split ''a:=b:=c'' remap)
   \<and> \<not> strings_Contains ''extra'' remap
   \<and> strings_Split ''extra'' remap = [''extra'']"
  using processArguments_two_components [of "[''a:=b:=c'', ''extra'', ''x:=y'']" "''a:=b:=c''" "[]" "[]" "[]" "[]" "''a''" "''b''" "''c''"]
    processArguments_two_components [of "[]" "''x:=y''" "[]" "[]" "[]" "[''extra'']" "[]" "[]" "[]"]
    processArguments_two_components [of "[]" "''extra''" "[]" "[]" "[]" "[]" "[]" "[]" "[]"]
  by (simp add: eval_simps)



section \<open>Properties of node construction\<close>

lemma configureNode_qualifiedName:
  "qualifiedName (configureNode sy ns0 nodeName remapping specials rest) =
     (let node = configureNode sy ns0 nodeName remapping specials rest
      in if length (namespace node) = 1 then namespace node @ name node
         else namespace node @ ''/'' @ name node)"
  by (simp add: configureNode_def Let_def)

lemma newDefaultNode_Inr:
  assumes "newDefaultNode sy given args = (Inr node, calls)"
  shows "\<exists>ns0 nodeName remapping params specials rest node0 port.
           processArguments args = (remapping, params, specials, rest) \<and>
           node0 = configureNode sy ns0 nodeName remapping specials rest \<and>
           node = node0\<lparr> xmlrpcURI := port \<rparr> \<and>
           setParams sy (masterURI node0) (qualifiedName node0) (rangeNameMap sy params) = (None, calls)"
  using assms unfolding newDefaultNode_def Let_def
  by (auto split: sum.splits prod.splits option.splits if_splits)


text \<open>
  Claim C5, amended.  The qualified name of a constructed node is namespace, \<open>/\<close> and name,
  except that a namespace of length one (as \<open>/\<close> is) is followed by the name at once.
\<close>

theorem qualifiedName_separator:
  assumes "fst (newDefaultNode sy given args) = Inr node"
  shows "qualifiedName node =
           (if length (namespace node) = 1 then namespace node @ name node
            else namespace node @ ''/'' @ name node)"
proof -
  obtain calls where "newDefaultNode sy given args = (Inr node, calls)"
    using assms by (cases "newDefaultNode sy given args") simp
  from newDefaultNode_Inr [OF this] obtain ns0 nodeName remapping specials rest port
    where "node = (configureNode sy ns0 nodeName remapping specials rest)\<lparr> xmlrpcURI := port \<rparr>"
    by blast
  then show ?thesis
    using configureNode_qualifiedName [of sy ns0 nodeName remapping specials rest]
    by (simp add: Let_def)
qed

theorem qualifiedName_separator_witness:
  "\<not> isl (fst (newDefaultNode exampleSys ''talker'' [''__ns:=/wg'']))
   \<and> namespace (projr (fst (newDefaultNode exampleSys ''talker'' [''__ns:=/wg'']))) = ''/wg''
   \<and> name (projr (fst (newDefaultNode exampleSys ''talker'' [''__ns:=/wg'']))) = ''talker''
   \<and> qualifiedName (projr (fst (newDefaultNode exampleSys ''talker'' [''__ns:=/wg'']))) = ''/wg/talker''"
proof -
  have "\<not> isl (fst (newDefaultNode exampleSys ''talker'' [''__ns:=/wg'']))"
    by (simp add: eval_simps)
  then have run: "fst (newDefaultNode exampleSys ''talker'' [''__ns:=/wg'']) =
      Inr (projr (fst (newDefaultNode exampleSys ''talker'' [''__ns:=/wg''])))"
    by simp
  show ?thesis
    using qualifiedName_separator [OF run]
    by (simp add: eval_simps)
qed

text \<open>
  With \<open>__ns:=x\<close> the namespace is \<open>x\<close>, not \<open>/\<close>, and the separator is left out all the same.
\<close>

theorem qualifiedName_separator_counterexample:
  "\<not> isl (fst (newDefaultNode exampleSys ''talker'' [''__ns:=x'']))
   \<and> namespace (projr (fst (newDefaultNode exampleSys ''talker'' [''__ns:=x'']))) = ''x''
   \<and> name (projr (fst (newDefaultNode exampleSys ''talker'' [''__ns:=x'']))) = ''talker''
   \<and> qualifiedName (projr (fst (newDefaultNode exampleSys ''talker'' [''__ns:=x'']))) = ''xtalker''"
  by (simp add: eval_simps)

lemma setParams_calls:
  "setParams sy uri caller kvs = (None, calls) \<Longrightarrow>
     calls = map (\<lambda>(k, v). (uri, ''setParam'', [XStr caller, XStr k, XStr v])) kvs"
proof (induction kvs arbitrary: calls)
  case Nil
  then show ?case by simp
next
  case (Cons kv kvs)
  obtain k v where kv: "kv = (k, v)" by (cases kv)
  from Cons.prems kv obtain calls' where
    "setParams sy uri caller kvs = (None, calls')"
    "calls = (uri, ''setParam'', [XStr caller, XStr k, XStr v]) # calls'"
    by (auto simp: Let_def split: option.splits prod.splits)
  with Cons.IH kv show ?case by simp
qed

lemma processArgument_private:
  assumes "strings_Split tok remap = [CHR ''_'' # key, val]" and "\<not> strings_HasPrefix key ''_''"
  shows "map_of (fst (snd (processArgument (m, p, s, r) tok))) key = Some val"
  using assms by (simp add: processArgument_cases strings_HasPrefix_def AList.update_conv')

lemma processArgument_other:
  assumes "\<forall>v. strings_Split t remap \<noteq> [CHR ''_'' # key, v]"
  shows "map_of (fst (snd (processArgument (m, p, s, r) t))) key = map_of p key"
proof (cases "\<exists>k v. strings_Split t remap = [k, v]")
  case True
  then obtain k v where kv: "strings_Split t remap = [k, v]" by blast
  show ?thesis
  proof (cases "strings_HasPrefix k ''__'' \<or> \<not> strings_HasPrefix k ''_''")
    case True
    with kv show ?thesis by (auto simp: processArgument_cases)
  next
    case False
    then obtain k' where k: "k = CHR ''_'' # k'"
      by (cases k) (auto simp: strings_HasPrefix_def)
    with assms kv have "k' \<noteq> key" by auto
    with False kv k show ?thesis
      by (simp add: processArgument_cases AList.update_conv')
  qed
next
  case False
  then show ?thesis
    by (auto simp: processArgument_cases split: list.splits)
qed

lemma foldl_processArgument_other:
  assumes "\<forall>t \<in> set ts. \<forall>v. strings_Split t remap \<noteq> [CHR ''_'' # key, v]"
  shows "map_of (fst (snd (foldl processArgument st ts))) key = map_of (fst (snd st)) key"
  using assms
proof (induction ts arbitrary: st)
  case Nil
  then show ?case by simp
next
  case (Cons t ts)
  obtain m p s r where st: "st = (m, p, s, r)" by (cases st)
  from Cons.prems have "map_of (fst (snd (processArgument st t))) key = map_of (fst (snd st)) key"
    unfolding st using processArgument_other [of t key m p s r] by simp
  moreover from Cons have
    "map_of (fst (snd (foldl processArgument (processArgument st t) ts))) key =
       map_of (fst (snd (processArgument st t))) key"
    by simp
  ultimately show ?case by simp
qed

lemma processArguments_private:
  assumes "strings_Split tok remap = [CHR ''_'' # key, val]" and "\<not> strings_HasPrefix key ''_''"
    and "\<forall>t \<in> set post. \<forall>v. strings_Split t remap \<noteq> [CHR ''_'' # key, v]"
  shows "map_of (fst (snd (processArguments (pre @ tok # post)))) key = Some val"
proof -
  obtain m p s r where st: "foldl processArgument ([], [], [], []) pre = (m, p, s, r)"
    by (cases "foldl processArgument ([], [], [], []) pre")
  show ?thesis
    using foldl_processArgument_other [OF assms(3), of "processArgument (m, p, s, r) tok"]
      processArgument_private [OF assms(1,2), of m p s r]
    by (simp add: processArguments_def st)
qed

text \<open>
  Claim C6, amended.  A token \<open>_key:=value\<close> with a single leading underscore, not
  followed by another token for the same key, is pushed by a node construction that
  succeeds as a \<open>setParam\<close> call whose parameter name is \<open>key\<close>, the underscore removed and
  nothing put in front, and whose value is \<open>value\<close>.
\<close>

theorem private_parameter_pushed:
  assumes "fst (newDefaultNode sy given (pre @ tok # post)) = Inr node"
    and "strings_Split tok remap = [CHR ''_'' # key, val]"
    and "\<not> strings_HasPrefix key ''_''"
    and "\<forall>t \<in> set post. \<forall>v. strings_Split t remap \<noteq> [CHR ''_'' # key, v]"
    and "\<forall>m. set (rangeNameMap sy m) = set m"
  shows "(masterURI node, ''setParam'', [XStr (qualifiedName node), XStr key, XStr val])
           \<in> set (snd (newDefaultNode sy given (pre @ tok # post)))"
proof -
  let ?args = "pre @ tok # post"
  obtain calls where run: "newDefaultNode sy given ?args = (Inr node, calls)"
    using assms(1) by (cases "newDefaultNode sy given ?args") simp
  from newDefaultNode_Inr [OF run] obtain ns0 nodeName remapping params specials rest node0 port
    where pa: "processArguments ?args = (remapping, params, specials, rest)"
      and node: "node = node0\<lparr> xmlrpcURI := port \<rparr>"
      and sp: "setParams sy (masterURI node0) (qualifiedName node0) (rangeNameMap sy params) = (None, calls)"
    by blast
  from processArguments_private [OF assms(2-4), of pre] pa
  have "map_of params key = Some val" by simp
  then have "(key, val) \<in> set (rangeNameMap sy params)"
    using assms(5) by (auto dest: map_of_SomeD)
  then have "(masterURI node0, ''setParam'', [XStr (qualifiedName node0), XStr key, XStr val]) \<in> set calls"
    unfolding setParams_calls [OF sp] by force
  then show ?thesis by (simp add: run node)
qed

theorem private_parameter_pushed_witness:
  "\<not> isl (fst (newDefaultNode exampleSys ''talker'' ([''_rate:=5''] @ ''_rate:=10'' # [''extra''])))
   \<and> strings_Split ''_rate:=10'' remap = [CHR ''_'' # ''rate'', ''10'']
   \<and> \<not> strings_HasPrefix ''rate'' ''_''
   \<and> (''http://localhost:11311'', ''setParam'', [XStr ''/talker'', XStr ''rate'', XStr ''10''])
        \<in> set (snd (newDefaultNode exampleSys ''talker'' ([''_rate:=5''] @ ''_rate:=10'' # [''extra''])))"
proof -
  let ?run = "newDefaultNode exampleSys ''talker'' ([''_rate:=5''] @ ''_rate:=10'' # [''extra''])"
  have ok: "\<not> isl (fst ?run)"
    by (simp add: eval_simps)
  then have run: "fst ?run = Inr (projr (fst ?run))"
    by simp
  have tok: "strings_Split ''_rate:=10'' remap = [CHR ''_'' # ''rate'', ''10'']"
    by (simp add: eval_simps)
  have single: "\<not> strings_HasPrefix ''rate'' ''_''"
    by (simp add: eval_simps)
  have post: "\<forall>t \<in> set [''extra'']. \<forall>v. strings_Split t remap \<noteq> [CHR ''_'' # ''rate'', v]"
    by (simp add: eval_simps)
  have order: "\<forall>m. set (rangeNameMap exampleSys m) = set m"
    by (simp add: exampleSys_def)
  have "masterURI (projr (fst ?run)) = ''http://localhost:11311''"
    and "qualifiedName (projr (fst ?run)) = ''/talker''"
    by (simp_all add: eval_simps)
  with private_parameter_pushed [OF run tok single post order] ok tok single
  show ?thesis by simp
qed

text \<open>
  For \<open>_rate:=10\<close> the one call made sets \<open>rate\<close>; no call sets \<open>~rate\<close>.
\<close>

theorem private_parameter_pushed_counterexample:
  "snd (newDefaultNode exampleSys ''talker'' [''_rate:=10'']) =
     [(''http://localhost:11311'', ''setParam'', [XStr ''/talker'', XStr ''rate'', XStr ''10''])]
   \<and> (''http://localhost:11311'', ''setParam'', [XStr ''/talker'', XStr ''~rate'', XStr ''10''])
        \<notin> set (snd (newDefaultNode exampleSys ''talker'' [''_rate:=10'']))"
  by (simp add: eval_simps)

section \<open>Properties of the slave API, publishers and subscribers\<close>

lemma protocolName_Some:
  "protocolName v = Some n \<Longrightarrow> \<exists>rest. v = XArray (XStr n # rest)"
  by (cases v rule: protocolName.cases) auto

lemma selectProtocol_skip:
  assumes "\<forall>u \<in> set pre. \<exists>n. protocolName u = Some n \<and> n \<noteq> ''TCPROS''"
  shows "selectProtocol pub (pre @ vs) = selectProtocol pub vs"
  using assms
proof (induction pre)
  case Nil
  then show ?case by simp
next
  case (Cons u pre)
  then obtain n where "protocolName u = Some n" "n \<noteq> ''TCPROS''" by auto
  then obtain rest where "u = XArray (XStr n # rest)" by (auto dest: protocolName_Some)
  with Cons \<open>n \<noteq> ''TCPROS''\<close> show ?case by simp
qed

lemma selectProtocol_TCPROS:
  assumes "protocolName v = Some ''TCPROS''" and "hostAndPort pub = (host, portStr)"
    and "strconv_ParseInt32 portStr = Inr port"
  shows "selectProtocol pub (v # post) = Inr [XStr ''TCPROS'', XStr host, XInt port]"
proof -
  from assms(1) obtain rest where "v = XArray (XStr ''TCPROS'' # rest)"
    by (auto dest: protocolName_Some)
  with assms(2,3) show ?thesis by simp
qed

text \<open>
  Claim C7, amended.  \<^verbatim>\<open>requestTopic\<close> for a topic without a publisher answers with the
  failure status.  For a topic with a publisher whose port is a number, and offered
  protocols that, as far as they are scanned, are each an array that starts with a string,
  the name of the protocol: the first named \<open>TCPROS\<close> is answered with success and \<open>TCPROS\<close>,
  host and port of the publisher; when none is named \<open>TCPROS\<close> the answer is success with
  the empty list.
\<close>

theorem requestTopic_contract:
  "(publishers node topic = None \<longrightarrow>
      requestTopic node callerID topic protocols =
        Inr (XArray [XInt failureStatus, XStr ''No such topic'', XInt 0]))
   \<and> (publishers node topic = Some pub \<and> hostAndPort pub = (host, portStr)
        \<and> strconv_ParseInt32 portStr = Inr port
        \<and> protocols = pre @ v # post
        \<and> (\<forall>u \<in> set pre. \<exists>n. protocolName u = Some n \<and> n \<noteq> ''TCPROS'')
        \<and> protocolName v = Some ''TCPROS'' \<longrightarrow>
      requestTopic node callerID topic protocols =
        Inr (XArray [XInt successStatus, XStr ''Success'',
                     XArray [XStr ''TCPROS'', XStr host, XInt port]]))
   \<and> (publishers node topic = Some pub
        \<and> (\<forall>u \<in> set protocols. \<exists>n. protocolName u = Some n \<and> n \<noteq> ''TCPROS'') \<longrightarrow>
      requestTopic node callerID topic protocols =
        Inr (XArray [XInt successStatus, XStr ''Success'', XArray []]))"
  using selectProtocol_skip [of pre pub "v # post"] selectProtocol_TCPROS [of v pub host portStr port post]
    selectProtocol_skip [of protocols pub "[]"]
  by (simp add: requestTopic_def buildRosAPIResult_def)

lemmas node_simps = NewPublisherWithCallbacks_def NewPublisher_def NewSubscriber_def
  newDefaultPublisher_def newDefaultSubscriber_def requestTopic_def buildRosAPIResult_def
  exampleNode_def MsgString_def strconv_ParseInt32_def successStatus_def failureStatus_def

text \<open>
  Claim C8.  When the node has a subscriber under the remapped name of the topic,
  \<^verbatim>\<open>NewSubscriber\<close> calls the Master not at all and creates no subscriber: the one stored
  is kept, with the new callback after those it had, in their order.
\<close>

theorem NewSubscriber_existing:
  assumes "subscribers node (resolver node topic) = Some sub"
  shows "snd (NewSubscriber sy node topic msgType cb) = []
    \<and> \<not> isl (fst (NewSubscriber sy node topic msgType cb))
    \<and> sub_ref (fst (projr (fst (NewSubscriber sy node topic msgType cb)))) = sub_ref sub
    \<and> callbacks (fst (projr (fst (NewSubscriber sy node topic msgType cb)))) = callbacks sub @ [cb]
    \<and> allocated (snd (projr (fst (NewSubscriber sy node topic msgType cb)))) = allocated node
    \<and> subscribers (snd (projr (fst (NewSubscriber sy node topic msgType cb)))) =
         (subscribers node)(resolver node topic \<mapsto> fst (projr (fst (NewSubscriber sy node topic msgType cb))))
    \<and> dom (subscribers (snd (projr (fst (NewSubscriber sy node topic msgType cb))))) = dom (subscribers node)"
  using assms by (auto simp: NewSubscriber_def Let_def)

lemma NewPublisherWithCallbacks_found:
  "publishers node topic = Some pub \<Longrightarrow>
     NewPublisherWithCallbacks sy node topic msgType cc dc = (Inr (pub, node), [])"
  by (simp add: NewPublisherWithCallbacks_def)

lemma NewPublisherWithCallbacks_missing:
  assumes "publishers node topic = None"
  shows "snd (NewPublisherWithCallbacks sy node topic msgType cc dc) =
           [(masterURI node, ''registerPublisher'',
             [XStr (qualifiedName node), XStr (resolver node topic), XStr (mt_Name msgType),
              XStr (xmlrpcURI node)])]"
    and "fst (NewPublisherWithCallbacks sy node topic msgType cc dc) = Inl Exit \<or>
         fst (NewPublisherWithCallbacks sy node topic msgType cc dc) =
           Inr (newDefaultPublisher sy node (resolver node topic) msgType cc dc,
                node\<lparr> publishers := (publishers node)
                         (resolver node topic \<mapsto> newDefaultPublisher sy node (resolver node topic) msgType cc dc),
                      allocated := Suc (allocated node) \<rparr>)"
  using assms by (simp_all add: NewPublisherWithCallbacks_def Let_def)

lemma NewPublisherWithCallbacks_Inr:
  assumes "fst (NewPublisherWithCallbacks sy node topic msgType cc dc) = Inr (pub, node')"
  shows "publishers node topic = Some pub \<and> node' = node \<or>
         publishers node topic = None \<and> pub = newDefaultPublisher sy node (resolver node topic) msgType cc dc \<and>
         node' = node\<lparr> publishers := (publishers node)(resolver node topic \<mapsto> pub),
                       allocated := Suc (allocated node) \<rparr>"
  using assms by (auto simp: NewPublisherWithCallbacks_def Let_def split: option.splits if_splits)

text \<open>
  Claim C9, amended.  \<^verbatim>\<open>NewPublisherWithCallbacks\<close> reads the map at the given string and
  writes it at the remapped name.  A given string that is a key gives the publisher stored
  there and no call.  One that is not a key gives one \<open>registerPublisher\<close> call and a new
  publisher stored at the remapped name.  So a second call for a string that is not a key
  and differs from its remapped name registers again and stores a publisher with another
  reference, and a second call for a string equal to its remapped name gives the first
  publisher and makes no call.
\<close>

theorem NewPublisherWithCallbacks_lookup:
  "(publishers node topic = Some pub \<longrightarrow>
      NewPublisherWithCallbacks sy node topic msgType cc dc = (Inr (pub, node), []))
   \<and> (publishers node topic = None \<longrightarrow>
        snd (NewPublisherWithCallbacks sy node topic msgType cc dc) =
          [(masterURI node, ''registerPublisher'',
            [XStr (qualifiedName node), XStr (resolver node topic), XStr (mt_Name msgType),
             XStr (xmlrpcURI node)])]
        \<and> (fst (NewPublisherWithCallbacks sy node topic msgType cc dc) = Inl Exit
            \<or> fst (NewPublisherWithCallbacks sy node topic msgType cc dc) =
                Inr (newDefaultPublisher sy node (resolver node topic) msgType cc dc,
                     node\<lparr> publishers := (publishers node)
                              (resolver node topic \<mapsto>
                                 newDefaultPublisher sy node (resolver node topic) msgType cc dc),
                           allocated := Suc (allocated node) \<rparr>)))
   \<and> (publishers node topic = None \<and> resolver node topic \<noteq> topic
        \<and> fst (NewPublisherWithCallbacks sy node topic msgType cc dc) = Inr (pub', node') \<longrightarrow>
        snd (NewPublisherWithCallbacks sy node' topic msgType cc dc) =
          snd (NewPublisherWithCallbacks sy node topic msgType cc dc)
        \<and> snd (NewPublisherWithCallbacks sy node' topic msgType cc dc) \<noteq> []
        \<and> \<not> isl (fst (NewPublisherWithCallbacks sy node' topic msgType cc dc))
        \<and> pub_ref (fst (projr (fst (NewPublisherWithCallbacks sy node' topic msgType cc dc)))) \<noteq> pub_ref pub'
        \<and> publishers (snd (projr (fst (NewPublisherWithCallbacks sy node' topic msgType cc dc))))
             (resolver node topic) =
           Some (fst (projr (fst (NewPublisherWithCallbacks sy node' topic msgType cc dc)))))
   \<and> (resolver node topic = topic
        \<and> fst (NewPublisherWithCallbacks sy node topic msgType cc dc) = Inr (pub', node') \<longrightarrow>
        NewPublisherWithCallbacks sy node' topic msgType' cc' dc' = (Inr (pub', node'), []))"
proof (intro conjI impI)
  assume "publishers node topic = Some pub"
  then show "NewPublisherWithCallbacks sy node topic msgType cc dc = (Inr (pub, node), [])"
    by (rule NewPublisherWithCallbacks_found)
next
  assume "publishers node topic = None"
  then show "snd (NewPublisherWithCallbacks sy node topic msgType cc dc) =
          [(masterURI node, ''registerPublisher'',
            [XStr (qualifiedName node), XStr (resolver node topic), XStr (mt_Name msgType),
             XStr (xmlrpcURI node)])]"
    by (rule NewPublisherWithCallbacks_missing)
next
  assume "publishers node topic = None"
  then show "fst (NewPublisherWithCallbacks sy node topic msgType cc dc) = Inl Exit
            \<or> fst (NewPublisherWithCallbacks sy node topic msgType cc dc) =
                Inr (newDefaultPublisher sy node (resolver node topic) msgType cc dc,
                     node\<lparr> publishers := (publishers node)
                              (resolver node topic \<mapsto>
                                 newDefaultPublisher sy node (resolver node topic) msgType cc dc),
                           allocated := Suc (allocated node) \<rparr>)"
    by (rule NewPublisherWithCallbacks_missing)
next
  assume a: "publishers node topic = None \<and> resolver node topic \<noteq> topic
        \<and> fst (NewPublisherWithCallbacks sy node topic msgType cc dc) = Inr (pub', node')"
  then have first: "\<not> (snd (callRosAPI sy (masterURI node, ''registerPublisher'',
            [XStr (qualifiedName node), XStr (resolver node topic), XStr (mt_Name msgType),
             XStr (xmlrpcURI node)])) \<noteq> None \<and> fatalExits (logger node))"
    by (auto simp: NewPublisherWithCallbacks_def Let_def split: if_splits)
  from a NewPublisherWithCallbacks_Inr [of sy node topic msgType cc dc pub' node']
  have pub': "pub' = newDefaultPublisher sy node (resolver node topic) msgType cc dc"
    and node': "node' = node\<lparr> publishers := (publishers node)(resolver node topic \<mapsto> pub'),
                       allocated := Suc (allocated node) \<rparr>"
    by auto
  from a node' have still: "publishers node' topic = None" by auto
  have same: "masterURI node' = masterURI node" "qualifiedName node' = qualifiedName node"
    "resolver node' = resolver node" "xmlrpcURI node' = xmlrpcURI node" "logger node' = logger node"
    "allocated node' = Suc (allocated node)"
    by (simp_all add: node')
  show "snd (NewPublisherWithCallbacks sy node' topic msgType cc dc) =
          snd (NewPublisherWithCallbacks sy node topic msgType cc dc)"
    using a still by (simp add: NewPublisherWithCallbacks_missing(1) same)
  show "snd (NewPublisherWithCallbacks sy node' topic msgType cc dc) \<noteq> []"
    using still by (simp add: NewPublisherWithCallbacks_missing(1))
  have second: "fst (NewPublisherWithCallbacks sy node' topic msgType cc dc) =
      Inr (newDefaultPublisher sy node' (resolver node topic) msgType cc dc,
           node'\<lparr> publishers := (publishers node')
                     (resolver node topic \<mapsto> newDefaultPublisher sy node' (resolver node topic) msgType cc dc),
                  allocated := Suc (allocated node') \<rparr>)"
    using still first by (simp add: NewPublisherWithCallbacks_def Let_def same)
  show "\<not> isl (fst (NewPublisherWithCallbacks sy node' topic msgType cc dc))"
    by (simp add: second)
  show "pub_ref (fst (projr (fst (NewPublisherWithCallbacks sy node' topic msgType cc dc)))) \<noteq> pub_ref pub'"
    by (simp add: second pub' newDefaultPublisher_def same)
  show "publishers (snd (projr (fst (NewPublisherWithCallbacks sy node' topic msgType cc dc))))
             (resolver node topic) =
           Some (fst (projr (fst (NewPublisherWithCallbacks sy node' topic msgType cc dc))))"
    by (simp add: second)
next
  assume a: "resolver node topic = topic
        \<and> fst (NewPublisherWithCallbacks sy node topic msgType cc dc) = Inr (pub', node')"
  with NewPublisherWithCallbacks_Inr [of sy node topic msgType cc dc pub' node']
  have "publishers node' topic = Some pub'" by auto
  then show "NewPublisherWithCallbacks sy node' topic msgType' cc' dc' = (Inr (pub', node'), [])"
    by (rule NewPublisherWithCallbacks_found)
qed

text \<open>
  After a publisher was made for \<open>/a\<close>, remapped to \<open>/b\<close>, the string \<open>/b\<close> is a key.  Its own
  remapped name is \<open>/c\<close>, yet a call for \<open>/b\<close> registers nothing and stores nothing.
\<close>

theorem NewPublisherWithCallbacks_lookup_counterexample:
  "resolver exampleNode_a ''/b'' = ''/c''
   \<and> publishers exampleNode_a ''/c'' = None
   \<and> snd (NewPublisherWithCallbacks exampleSys exampleNode_a ''/b'' MsgString None None) = []
   \<and> \<not> isl (fst (NewPublisherWithCallbacks exampleSys exampleNode_a ''/b'' MsgString None None))
   \<and> pub_topic (fst (projr (fst (NewPublisherWithCallbacks exampleSys exampleNode_a ''/b'' MsgString None None)))) = ''/b''
   \<and> pub_ref (fst (projr (fst (NewPublisherWithCallbacks exampleSys exampleNode_a ''/b'' MsgString None None)))) = 0
   \<and> publishers (snd (projr (fst (NewPublisherWithCallbacks exampleSys exampleNode_a ''/b'' MsgString None None)))) ''/c'' = None"
  by (simp add: exampleNode_a_def node_simps eval_simps)

lemmas example_nodes = exampleNode_a_def exampleNode_chatter_def exampleNode_sub_def exampleNode_slash_def

theorem requestTopic_contract_witness:
  "publishers exampleNode ''/chatter'' = None
   \<and> requestTopic exampleNode ''/listener'' ''/chatter'' [XArray [XStr ''TCPROS'']] =
       Inr (XArray [XInt failureStatus, XStr ''No such topic'', XInt 0])
   \<and> publishers exampleNode_chatter ''/chatter'' =
       Some \<lparr> pub_ref = 0, pub_topic = ''/chatter'', pub_msgType = MsgString, connectCallback = None,
              disconnectCallback = None, hostAndPort = (''localhost'', ''40001'') \<rparr>
   \<and> strconv_ParseInt32 ''40001'' = Inr 40001
   \<and> protocolName (XArray [XStr ''UDPROS'']) = Some ''UDPROS''
   \<and> protocolName (XArray [XStr ''TCPROS'', XInt 1]) = Some ''TCPROS''
   \<and> requestTopic exampleNode_chatter ''/listener'' ''/chatter''
         ([XArray [XStr ''UDPROS'']] @ XArray [XStr ''TCPROS'', XInt 1] # [XInt 3]) =
       Inr (XArray [XInt successStatus, XStr ''Success'',
                    XArray [XStr ''TCPROS'', XStr ''localhost'', XInt 40001]])
   \<and> requestTopic exampleNode_chatter ''/listener'' ''/chatter'' [XArray [XStr ''UDPROS'']] =
       Inr (XArray [XInt successStatus, XStr ''Success'', XArray []])"
proof -
  let ?pub = "\<lparr> pub_ref = 0, pub_topic = ''/chatter'', pub_msgType = MsgString, connectCallback = None,
              disconnectCallback = None, hostAndPort = (''localhost'', ''40001'') \<rparr>"
  have none: "publishers exampleNode ''/chatter'' = None"
    by (simp add: node_simps eval_simps)
  have some: "publishers exampleNode_chatter ''/chatter'' = Some ?pub"
    by (simp add: example_nodes node_simps eval_simps)
  have port: "strconv_ParseInt32 ''40001'' = Inr 40001"
    by (simp add: strconv_ParseInt32_def)
  have others: "\<forall>u \<in> set [XArray [XStr ''UDPROS'']]. \<exists>n. protocolName u = Some n \<and> n \<noteq> ''TCPROS''"
    by simp
  show ?thesis
    using none some port others
      requestTopic_contract [where node = exampleNode and topic = "''/chatter''"
        and callerID = "''/listener''" and protocols = "[XArray [XStr ''TCPROS'']]"
        and pre = "[]" and post = "[]" and v = XNil and pub = ?pub and host = "[]" and portStr = "[]" and port = 0]
      requestTopic_contract [where node = exampleNode_chatter and topic = "''/chatter''"
        and callerID = "''/listener''"
        and protocols = "[XArray [XStr ''UDPROS'']] @ XArray [XStr ''TCPROS'', XInt 1] # [XInt 3]"
        and pre = "[XArray [XStr ''UDPROS'']]" and v = "XArray [XStr ''TCPROS'', XInt 1]"
        and post = "[XInt 3]" and pub = ?pub and host = "''localhost''" and portStr = "''40001''"
        and port = 40001]
      requestTopic_contract [where node = exampleNode_chatter and topic = "''/chatter''"
        and callerID = "''/listener''" and protocols = "[XArray [XStr ''UDPROS'']]"
        and pre = "[]" and post = "[]" and v = XNil and pub = ?pub and host = "[]" and portStr = "[]" and port = 0]
    by simp
qed

text \<open>
  An offered protocol that is the empty array, or an entry that is not an array, is met by
  the unchecked index and the unchecked type assertion: the call panics and gives no
  answer, though no offered protocol is named \<open>TCPROS\<close>.
\<close>

theorem requestTopic_contract_counterexample:
  "publishers exampleNode_chatter ''/chatter'' =
     Some \<lparr> pub_ref = 0, pub_topic = ''/chatter'', pub_msgType = MsgString, connectCallback = None,
            disconnectCallback = None, hostAndPort = (''localhost'', ''40001'') \<rparr>
   \<and> requestTopic exampleNode_chatter ''/listener'' ''/chatter'' [XArray []] =
       Inl (Panic ''index out of range'')
   \<and> requestTopic exampleNode_chatter ''/listener'' ''/chatter'' [XArray [XStr ''UDPROS''], XInt 3] =
       Inl (Panic ''interface conversion'')
   \<and> requestTopic exampleNode_chatter ''/listener'' ''/chatter''
         [XArray [XInt 1], XArray [XStr ''TCPROS'']] =
       Inl (Panic ''interface conversion'')"
  by (simp add: example_nodes node_simps eval_simps)

theorem NewSubscriber_existing_witness:
  "subscribers exampleNode_sub (resolver exampleNode_sub ''chatter'') =
     Some \<lparr> sub_ref = 0, sub_topic = ''/chatter'', sub_msgType = MsgString, callbacks = [1],
            pubListChan = [[]] \<rparr>
   \<and> snd (NewSubscriber exampleSys exampleNode_sub ''chatter'' MsgString 2) = []
   \<and> sub_ref (fst (projr (fst (NewSubscriber exampleSys exampleNode_sub ''chatter'' MsgString 2)))) = 0
   \<and> callbacks (fst (projr (fst (NewSubscriber exampleSys exampleNode_sub ''chatter'' MsgString 2)))) = [1, 2]
   \<and> allocated (snd (projr (fst (NewSubscriber exampleSys exampleNode_sub ''chatter'' MsgString 2)))) = 1"
proof -
  have "subscribers exampleNode_sub (resolver exampleNode_sub ''chatter'') =
     Some \<lparr> sub_ref = 0, sub_topic = ''/chatter'', sub_msgType = MsgString, callbacks = [1],
            pubListChan = [[]] \<rparr>"
    by (simp add: example_nodes node_simps eval_simps)
  moreover have "allocated exampleNode_sub = 1"
    by (simp add: example_nodes node_simps eval_simps)
  ultimately show ?thesis
    using NewSubscriber_existing [of exampleNode_sub "''chatter''" _ exampleSys MsgString 2]
    by simp
qed

theorem NewPublisherWithCallbacks_lookup_witness:
  "publishers exampleNode_chatter ''/chatter'' =
     Some \<lparr> pub_ref = 0, pub_topic = ''/chatter'', pub_msgType = MsgString, connectCallback = None,
            disconnectCallback = None, hostAndPort = (''localhost'', ''40001'') \<rparr>
   \<and> NewPublisherWithCallbacks exampleSys exampleNode_chatter ''/chatter'' MsgString None None =
       (Inr (\<lparr> pub_ref = 0, pub_topic = ''/chatter'', pub_msgType = MsgString, connectCallback = None,
               disconnectCallback = None, hostAndPort = (''localhost'', ''40001'') \<rparr>,
             exampleNode_chatter), [])
   \<and> publishers exampleNode ''chatter'' = None
   \<and> resolver exampleNode ''chatter'' \<noteq> ''chatter''
   \<and> snd (NewPublisherWithCallbacks exampleSys exampleNode ''chatter'' MsgString None None) =
       [(''http://localhost:11311'', ''registerPublisher'',
         [XStr ''/talker'', XStr ''/chatter'', XStr ''std_msgs/String'', XStr ''http://localhost:40000''])]
   \<and> \<not> isl (fst (NewPublisherWithCallbacks exampleSys exampleNode ''chatter'' MsgString None None))
   \<and> snd (NewPublisherWithCallbacks exampleSys exampleNode_chatter ''chatter'' MsgString None None) =
       [(''http://localhost:11311'', ''registerPublisher'',
         [XStr ''/talker'', XStr ''/chatter'', XStr ''std_msgs/String'', XStr ''http://localhost:40000''])]
   \<and> pub_ref (fst (projr (fst (NewPublisherWithCallbacks exampleSys exampleNode_chatter ''chatter'' MsgString None None)))) \<noteq> 0
   \<and> resolver exampleNode ''/chatter'' = ''/chatter''
   \<and> \<not> isl (fst (NewPublisherWithCallbacks exampleSys exampleNode ''/chatter'' MsgString None None))
   \<and> NewPublisherWithCallbacks exampleSys exampleNode_slash ''/chatter'' MsgString None None =
       (Inr (fst (projr (fst (NewPublisherWithCallbacks exampleSys exampleNode ''/chatter'' MsgString None None))),
             exampleNode_slash), [])"
proof -
  let ?pub = "\<lparr> pub_ref = 0, pub_topic = ''/chatter'', pub_msgType = MsgString, connectCallback = None,
            disconnectCallback = None, hostAndPort = (''localhost'', ''40001'') \<rparr>"
  let ?first = "NewPublisherWithCallbacks exampleSys exampleNode ''chatter'' MsgString None None"
  let ?slash = "NewPublisherWithCallbacks exampleSys exampleNode ''/chatter'' MsgString None None"
  have some: "publishers exampleNode_chatter ''/chatter'' = Some ?pub"
    by (simp add: example_nodes node_simps eval_simps)
  have none: "publishers exampleNode ''chatter'' = None"
    by (simp add: node_simps eval_simps)
  have differs: "resolver exampleNode ''chatter'' \<noteq> ''chatter''"
    by (simp add: node_simps eval_simps)
  have calls: "snd ?first = [(''http://localhost:11311'', ''registerPublisher'',
         [XStr ''/talker'', XStr ''/chatter'', XStr ''std_msgs/String'', XStr ''http://localhost:40000''])]"
    by (simp add: node_simps eval_simps)
  have ok: "\<not> isl (fst ?first)"
    by (simp add: node_simps eval_simps)
  then have first: "fst ?first = Inr (fst (projr (fst ?first)), exampleNode_chatter)"
    by (simp add: exampleNode_chatter_def)
  have ref: "pub_ref (fst (projr (fst ?first))) = 0"
    by (simp add: node_simps eval_simps)
  have equal: "resolver exampleNode ''/chatter'' = ''/chatter''"
    by (simp add: node_simps eval_simps)
  have ok': "\<not> isl (fst ?slash)"
    by (simp add: node_simps eval_simps)
  then have slash: "fst ?slash = Inr (fst (projr (fst ?slash)), exampleNode_slash)"
    by (simp add: exampleNode_slash_def)
  show ?thesis
    using some none differs calls ok ok' ref equal
      NewPublisherWithCallbacks_lookup [where node = exampleNode_chatter and topic = "''/chatter''"
        and pub = ?pub and sy = exampleSys and msgType = MsgString and cc = None and dc = None
        and pub' = ?pub and node' = exampleNode and msgType' = MsgString and cc' = None and dc' = None]
      NewPublisherWithCallbacks_lookup [where node = exampleNode and topic = "''chatter''"
        and pub = ?pub and sy = exampleSys and msgType = MsgString and cc = None and dc = None
        and pub' = "fst (projr (fst ?first))" and node' = exampleNode_chatter
        and msgType' = MsgString and cc' = None and dc' = None]
      NewPublisherWithCallbacks_lookup [where node = exampleNode and topic = "''/chatter''"
        and pub = ?pub and sy = exampleSys and msgType = MsgString and cc = None and dc = None
        and pub' = "fst (projr (fst ?slash))" and node' = exampleNode_slash
        and msgType' = MsgString and cc' = None and dc' = None]
      first slash
    by simp
qed

section \<open>Properties of the loader\<close>

lemma LoadMsg_missing:
  "msgRegistry ctx fullname = None \<Longrightarrow> msgPathMap ctx fullname = None \<Longrightarrow>
     LoadMsg_over d cmt ctx fullname =
       Some (Inl (notFound fullname), ctx)"
  by (simp add: LoadMsg_over_def)

lemma md5Fields_primitive:
  "\<forall>g \<in> set pre. f_Package g = [] \<Longrightarrow>
     md5Fields d cmt ctx (pre @ fs) buf =
       md5Fields d cmt ctx fs (buf @ concat (map (\<lambda>g. Field_String d g @ nl) pre))"
  by (induction pre arbitrary: buf) simp_all

text \<open>
  Claim C2 fails on the code.  When the first field with a package names a message that is
  neither registered nor in the path map, \<^verbatim>\<open>LoadMsg\<close> gives the not-found error, but
  \<^verbatim>\<open>ComputeMD5Text\<close> returns the empty text and no error, and \<^verbatim>\<open>ComputeMsgMD5\<close> the digest
  of the empty text and no error.
\<close>

theorem unloadable_field_no_error:
  assumes "Fields spec = pre @ f # post"
    and "\<forall>g \<in> set pre. f_Package g = []"
    and "f_Package f \<noteq> []"
    and "msgRegistry ctx (f_Package f @ ''/'' @ f_Type f) = None"
    and "msgPathMap ctx (f_Package f @ ''/'' @ f_Type f) = None"
  shows "LoadMsg d n ctx (f_Package f @ ''/'' @ f_Type f) =
           Some (Inl (notFound (f_Package f @ ''/'' @ f_Type f)), ctx)
         \<and> ComputeMD5Text d (Suc n) ctx spec = Some (Inr [], ctx)
         \<and> ComputeMsgMD5 d (Suc n) ctx spec = Some (Inr (md5hex d []), ctx)"
proof -
  have empty: "ComputeMD5Text d (Suc n) ctx spec = Some (Inr [], ctx)"
    using assms by (simp add: md5Fields_primitive LoadMsg_missing)
  then show ?thesis
    using assms(4,5) by (simp add: ComputeMsgMD5_def ComputeMsgMD5_over_def LoadMsg_def LoadMsg_missing)
qed

theorem unloadable_field_no_error_witness:
  "Fields unloadable =
      [\<lparr> f_Package = [], f_Type = ''int32'', f_Name = ''a'', f_Array = Scalar \<rparr>] @
      \<lparr> f_Package = ''foo'', f_Type = ''Bar'', f_Name = ''x'', f_Array = Scalar \<rparr> # []
   \<and> msgRegistry emptyContext ''foo/Bar'' = None
   \<and> msgPathMap emptyContext ''foo/Bar'' = None
   \<and> LoadMsg exampleDeps 0 emptyContext ''foo/Bar'' =
        Some (Inl (notFound ''foo/Bar''), emptyContext)
   \<and> ComputeMD5Text exampleDeps 1 emptyContext unloadable = Some (Inr [], emptyContext)
   \<and> ComputeMsgMD5 exampleDeps 1 emptyContext unloadable = Some (Inr ''md5()'', emptyContext)"
  using unloadable_field_no_error [where spec = unloadable and ctx = emptyContext and n = 0
      and d = exampleDeps
      and pre = "[\<lparr> f_Package = [], f_Type = ''int32'', f_Name = ''a'', f_Array = Scalar \<rparr>]"
      and f = "\<lparr> f_Package = ''foo'', f_Type = ''Bar'', f_Name = ''x'', f_Array = Scalar \<rparr>"
      and post = "[]"]
  by (simp add: unloadable_def emptyContext_def exampleDeps_def)

lemma length_three_iff: "length xs = 3 \<longleftrightarrow> (\<exists>a b c. xs = [a, b, c])"
  by (cases xs; cases "tl xs"; cases "tl (tl xs)"; cases "tl (tl (tl xs))") auto

lemma LoadSrvFromString_Inr:
  "LoadSrvFromString d n ctx src fullname = Some (Inr srv, ctx') \<Longrightarrow>
     length (strings_Split src ''---'') = 2"
  by (auto simp: LoadSrvFromString_def split: sum.splits prod.splits list.splits)

lemma LoadSrvFromString_other:
  "packageResourceName d fullname = Inr pr \<Longrightarrow> length (strings_Split src ''---'') \<noteq> 2 \<Longrightarrow>
     LoadSrvFromString d n ctx src fullname = Some (Inl missingSeparator, ctx)"
  by (auto simp: LoadSrvFromString_def split: sum.splits prod.splits list.splits)

lemma LoadActionFromString_Inr:
  "LoadActionFromString d n ctx src fullname = Some (Inr act, ctx') \<Longrightarrow>
     length (strings_Split src ''---'') = 3"
  by (auto simp: LoadActionFromString_def split: sum.splits prod.splits list.splits)

lemma LoadActionFromString_other:
  "packageResourceName d fullname = Inr pr \<Longrightarrow> length (strings_Split src ''---'') \<noteq> 3 \<Longrightarrow>
     LoadActionFromString d n ctx src fullname = Some (Inl missingSeparator, ctx)"
  by (auto simp: LoadActionFromString_def split: sum.splits prod.splits list.splits)

text \<open>
  Claim C3, amended.  A text loads as a service only when its split at every occurrence of
  \<open>---\<close>, wherever in a line it stands, has exactly two components, and as an action only
  when it has exactly three; for a full name that has a package and a short name every
  other text gives the error that says \<open>---\<close> is missing.
\<close>

theorem sections_split_at_substring:
  "(LoadSrvFromString d n ctx src fullname = Some (Inr srv, ctx') \<longrightarrow>
      length (strings_Split src ''---'') = 2)
   \<and> (packageResourceName d fullname = Inr pr \<and> length (strings_Split src ''---'') \<noteq> 2 \<longrightarrow>
        LoadSrvFromString d n ctx src fullname = Some (Inl missingSeparator, ctx))
   \<and> (LoadActionFromString d n ctx src fullname = Some (Inr act, ctxa) \<longrightarrow>
        length (strings_Split src ''---'') = 3)
   \<and> (packageResourceName d fullname = Inr pr \<and> length (strings_Split src ''---'') \<noteq> 3 \<longrightarrow>
        LoadActionFromString d n ctx src fullname = Some (Inl missingSeparator, ctx))"
  using LoadSrvFromString_Inr [of d n ctx src fullname srv ctx']
    LoadSrvFromString_other [of d fullname pr src n ctx]
    LoadActionFromString_Inr [of d n ctx src fullname act ctxa]
    LoadActionFromString_other [of d fullname pr src n ctx]
  by blast

lemmas loader_simps = LoadSrvFromString_def LoadActionFromString_def LoadMsgFromString_def
  LoadMsgFromString_over_def ComputeMsgMD5_over_def ComputeSrvMD5_def ComputeActionMD5_def
  andThen_def NewMsgSpec_def ConstChar_def exampleDeps_def emptyContext_def
  trimSpace_def fieldsOf_def primitives_def arrayOf_def strings_Trim_def strings_Contains_def
  strings_Split.simps missingSeparator_def LoadMsg_over_def notFound_def

text \<open>
  A text of one line with \<open>---\<close> in it loads as a service, the line cut in two; a text of
  two sections with a line of \<open>---\<close> between them does not, for a \<open>---\<close> in a comment.
\<close>

theorem sections_split_at_substring_counterexample:
  "LoadSrvFromString exampleDeps 1 emptyContext ''int32 a---int32 b'' ''pkg/Add'' \<noteq> None
   \<and> \<not> isl (fst (the (LoadSrvFromString exampleDeps 1 emptyContext ''int32 a---int32 b'' ''pkg/Add'')))
   \<and> Text (Request (projr (fst (the (LoadSrvFromString exampleDeps 1 emptyContext
          ''int32 a---int32 b'' ''pkg/Add''))))) = ''int32 a''
   \<and> Text (Response (projr (fst (the (LoadSrvFromString exampleDeps 1 emptyContext
          ''int32 a---int32 b'' ''pkg/Add''))))) = ''int32 b''
   \<and> LoadSrvFromString exampleDeps 1 emptyContext
         (''int32 a # --- first'' @ nl @ ''---'' @ nl @ ''int32 b'') ''pkg/Add'' =
       Some (Inl missingSeparator, emptyContext)"
  by (simp add: loader_simps)


lemma loaded_Inr:
  "r \<noteq> None \<Longrightarrow> \<not> isl (fst (the r)) \<Longrightarrow> r = Some (Inr (projr (fst (the r))), snd (the r))"
  by (cases r) auto

theorem sections_split_at_substring_witness:
  "LoadSrvFromString exampleDeps 1 emptyContext (''int32 a'' @ nl @ ''---'' @ nl @ ''int32 b'') ''pkg/Add'' \<noteq> None
   \<and> \<not> isl (fst (the (LoadSrvFromString exampleDeps 1 emptyContext
            (''int32 a'' @ nl @ ''---'' @ nl @ ''int32 b'') ''pkg/Add'')))
   \<and> length (strings_Split (''int32 a'' @ nl @ ''---'' @ nl @ ''int32 b'') ''---'') = 2
   \<and> packageResourceName exampleDeps ''pkg/Add'' = Inr (''pkg'', ''Add'')
   \<and> length (strings_Split ''int32 a'' ''---'') \<noteq> 2
   \<and> LoadSrvFromString exampleDeps 1 emptyContext ''int32 a'' ''pkg/Add'' =
        Some (Inl missingSeparator, emptyContext)
   \<and> LoadActionFromString exampleDeps 1 emptyContext ''int32 a---int32 b---int32 c'' ''pkg/Add'' \<noteq> None
   \<and> \<not> isl (fst (the (LoadActionFromString exampleDeps 1 emptyContext
            ''int32 a---int32 b---int32 c'' ''pkg/Add'')))
   \<and> length (strings_Split ''int32 a---int32 b---int32 c'' ''---'') = 3
   \<and> length (strings_Split ''int32 a---int32 b'' ''---'') \<noteq> 3
   \<and> LoadActionFromString exampleDeps 1 emptyContext ''int32 a---int32 b'' ''pkg/Add'' =
        Some (Inl missingSeparator, emptyContext)"
proof -
  let ?srv = "LoadSrvFromString exampleDeps 1 emptyContext
                (''int32 a'' @ nl @ ''---'' @ nl @ ''int32 b'') ''pkg/Add''"
  let ?act = "LoadActionFromString exampleDeps 1 emptyContext ''int32 a---int32 b---int32 c'' ''pkg/Add''"
  have srv: "?srv \<noteq> None" "\<not> isl (fst (the ?srv))"
    by (simp_all add: loader_simps)
  have act: "?act \<noteq> None" "\<not> isl (fst (the ?act))"
    by (simp_all add: loader_simps)
  have name: "packageResourceName exampleDeps ''pkg/Add'' = Inr (''pkg'', ''Add'')"
    by (simp add: loader_simps)
  have one: "length (strings_Split ''int32 a'' ''---'') \<noteq> 2"
    and two: "length (strings_Split ''int32 a---int32 b'' ''---'') \<noteq> 3"
    by (simp_all add: loader_simps)
  show ?thesis
    using srv act name one two
      sections_split_at_substring [where d = exampleDeps and n = 1 and ctx = emptyContext
        and src = "''int32 a'' @ nl @ ''---'' @ nl @ ''int32 b''" and fullname = "''pkg/Add''"
        and srv = "projr (fst (the ?srv))" and ctx' = "snd (the ?srv)", THEN conjunct1]
      sections_split_at_substring [where d = exampleDeps and n = 1 and ctx = emptyContext
        and src = "''int32 a''" and fullname = "''pkg/Add''" and pr = "(''pkg'', ''Add'')",
        THEN conjunct2, THEN conjunct1]
      sections_split_at_substring [where d = exampleDeps and n = 1 and ctx = emptyContext
        and src = "''int32 a---int32 b---int32 c''" and fullname = "''pkg/Add''"
        and act = "projr (fst (the ?act))" and ctxa = "snd (the ?act)",
        THEN conjunct2, THEN conjunct2, THEN conjunct1]
      sections_split_at_substring [where d = exampleDeps and n = 1 and ctx = emptyContext
        and src = "''int32 a---int32 b''" and fullname = "''pkg/Add''" and pr = "(''pkg'', ''Add'')",
        THEN conjunct2, THEN conjunct2, THEN conjunct2]
      loaded_Inr [OF srv] loaded_Inr [OF act]
    by simp
qed

lemma strings_Cut_char_None: "c \<notin> set s \<Longrightarrow> strings_Cut s [c] = None"
  by (induction s) auto

lemma strings_Split_char_Cons:
  "strings_Split (a # s) [c] =
     (if a = c then [] # strings_Split s [c]
      else (a # hd (strings_Split s [c])) # tl (strings_Split s [c]))"
proof (cases "a = c")
  case True
  then show ?thesis using strings_Split.simps [of "a # s" "[c]"] by simp
next
  case False
  then show ?thesis
    by (cases "strings_Cut s [c]")
       (auto simp: strings_Split.simps [of "a # s"] strings_Split.simps [of s])
qed

lemma strings_Split_char_append:
  "strings_Split (x @ c # y) [c] = strings_Split x [c] @ strings_Split y [c]"
proof (induction x)
  case Nil
  then show ?case by (simp add: strings_Split_char_Cons strings_Split.simps [of "[]"])
next
  case (Cons a x)
  have "strings_Split x [c] \<noteq> []" by (rule strings_Split_nonempty) simp
  with Cons show ?case by (simp add: strings_Split_char_Cons)
qed

lemma strings_Split_line:
  assumes "CHR 0x0A \<notin> set l"
  shows "strings_Split (a @ CHR 0x0A # l @ CHR 0x0A # b) nl =
           strings_Split a nl @ l # strings_Split b nl"
proof -
  have "strings_Split l nl = [l]"
    using assms by (simp add: strings_Split.simps [of l] strings_Cut_char_None)
  then show ?thesis
    using strings_Split_char_append [of a "CHR 0x0A" "l @ nl @ b"]
      strings_Split_char_append [of l "CHR 0x0A" b]
    by simp
qed

lemma parseLines_filter:
  "map_sum (\<lambda>err. ()) id (parseLines d pkg fullname k ls fs cs) =
   map_sum (\<lambda>err. ()) id
     (parseLines d pkg fullname k' (filter (\<lambda>l. stripComment d l \<noteq> []) ls) fs cs)"
proof (induction ls arbitrary: k k' fs cs)
  case Nil
  then show ?case by simp
next
  case (Cons l ls)
  show ?case
  proof (cases "stripComment d l = []")
    case True
    with Cons [where k = "Suc k" and k' = k'] show ?thesis by simp
  next
    case False
    show ?thesis
    proof (cases "strings_Contains (stripComment d l) ConstChar")
      case True
      with False Cons [where k = "Suc k" and k' = "Suc k'"] show ?thesis
        by (cases "loadConstantLine d l") (simp_all add: Let_def)
    next
      case no: False
      with False Cons [where k = "Suc k" and k' = "Suc k'"] show ?thesis
        by (cases "loadFieldLine d l pkg") (simp_all add: Let_def)
    qed
  qed
qed

lemma parseLines_same:
  assumes "filter (\<lambda>l. stripComment d l \<noteq> []) ls = filter (\<lambda>l. stripComment d l \<noteq> []) ls'"
  shows "map_sum (\<lambda>err. ()) id (parseLines d pkg fullname k ls fs cs) =
         map_sum (\<lambda>err. ()) id (parseLines d pkg fullname k' ls' fs cs)"
  using parseLines_filter [of d pkg fullname k ls fs cs 0]
    parseLines_filter [of d pkg fullname k' ls' fs cs 0] assms
  by simp

lemma ComputeMD5Text_parts:
  "Fields spec = Fields spec' \<Longrightarrow> Constants spec = Constants spec' \<Longrightarrow>
     ComputeMD5Text d n ctx spec = ComputeMD5Text d n ctx spec'"
  by (cases n) simp_all

lemma LoadMsgFromString_same_lines:
  assumes "filter (\<lambda>l. stripComment d l \<noteq> []) (strings_Split src nl) =
           filter (\<lambda>l. stripComment d l \<noteq> []) (strings_Split src' nl)"
  shows "loadedMD5 (LoadMsgFromString d n ctx src fullname) =
         loadedMD5 (LoadMsgFromString d n ctx src' fullname)"
proof (cases "packageResourceName d fullname")
  case (Inl e)
  then show ?thesis
    by (simp add: LoadMsgFromString_def LoadMsgFromString_over_def loadedMD5_def)
next
  case (Inr pr)
  obtain pkg short where pr: "pr = (pkg, short)" by (cases pr)
  let ?p = "parseLines d pkg fullname 0 (strings_Split src nl) [] []"
  let ?p' = "parseLines d pkg fullname 0 (strings_Split src' nl) [] []"
  have same: "map_sum (\<lambda>err. ()) id ?p = map_sum (\<lambda>err. ()) id ?p'"
    using assms by (rule parseLines_same)
  show ?thesis
  proof (cases ?p)
    case (Inl e)
    with same obtain e' where "?p' = Inl e'" by (cases ?p') auto
    with Inl Inr pr show ?thesis
      by (simp add: LoadMsgFromString_def LoadMsgFromString_over_def loadedMD5_def)
  next
    case parsed: (Inr fc)
    with same have parsed': "?p' = Inr fc" by (cases ?p') auto
    obtain fds cns where fc: "fc = (fds, cns)" by (cases fc)
    have "ComputeMD5Text d n ctx (NewMsgSpec fds cns src fullname pkg short) =
          ComputeMD5Text d n ctx (NewMsgSpec fds cns src' fullname pkg short)"
      by (rule ComputeMD5Text_parts) (simp_all add: NewMsgSpec_def)
    then show ?thesis
      using Inr pr parsed parsed' fc
      by (auto simp: LoadMsgFromString_def LoadMsgFromString_over_def ComputeMsgMD5_over_def
            loadedMD5_def NewMsgSpec_def split: option.splits sum.splits prod.splits)
  qed
qed

text \<open>
  Claim C4.  The lines that \<^verbatim>\<open>LoadMsgFromString\<close> skips are those of which nothing is left
  when the comment is stripped: blank lines and lines that are a comment only.  Two texts
  with the same lines after these are left out load to the same MD5, or both do not load.
  So a text with such a line put in between two lines has the MD5 of the text without it,
  and of the text with another such line in its place.
\<close>

theorem MD5_ignores_skipped_lines:
  "(filter (\<lambda>l. stripComment d l \<noteq> []) (strings_Split src nl) =
    filter (\<lambda>l. stripComment d l \<noteq> []) (strings_Split src' nl) \<longrightarrow>
      loadedMD5 (LoadMsgFromString d n ctx src fullname) =
      loadedMD5 (LoadMsgFromString d n ctx src' fullname))
   \<and> (stripComment d l = [] \<and> CHR 0x0A \<notin> set l \<longrightarrow>
        loadedMD5 (LoadMsgFromString d n ctx (a @ nl @ l @ nl @ b) fullname) =
        loadedMD5 (LoadMsgFromString d n ctx (a @ nl @ b) fullname))
   \<and> (stripComment d l = [] \<and> CHR 0x0A \<notin> set l \<and> stripComment d l' = [] \<and> CHR 0x0A \<notin> set l' \<longrightarrow>
        loadedMD5 (LoadMsgFromString d n ctx (a @ nl @ l @ nl @ b) fullname) =
        loadedMD5 (LoadMsgFromString d n ctx (a @ nl @ l' @ nl @ b) fullname))"
proof (intro conjI impI)
  assume "filter (\<lambda>l. stripComment d l \<noteq> []) (strings_Split src nl) =
    filter (\<lambda>l. stripComment d l \<noteq> []) (strings_Split src' nl)"
  then show "loadedMD5 (LoadMsgFromString d n ctx src fullname) =
      loadedMD5 (LoadMsgFromString d n ctx src' fullname)"
    by (rule LoadMsgFromString_same_lines)
next
  assume "stripComment d l = [] \<and> CHR 0x0A \<notin> set l"
  then show "loadedMD5 (LoadMsgFromString d n ctx (a @ nl @ l @ nl @ b) fullname) =
        loadedMD5 (LoadMsgFromString d n ctx (a @ nl @ b) fullname)"
    using strings_Split_char_append [of a "CHR 0x0A" b]
    by (intro LoadMsgFromString_same_lines) (simp add: strings_Split_line)
next
  assume "stripComment d l = [] \<and> CHR 0x0A \<notin> set l \<and> stripComment d l' = [] \<and> CHR 0x0A \<notin> set l'"
  then show "loadedMD5 (LoadMsgFromString d n ctx (a @ nl @ l @ nl @ b) fullname) =
        loadedMD5 (LoadMsgFromString d n ctx (a @ nl @ l' @ nl @ b) fullname)"
    by (intro LoadMsgFromString_same_lines) (simp add: strings_Split_line)
qed


theorem MD5_ignores_skipped_lines_witness:
  "filter (\<lambda>l. stripComment exampleDeps l \<noteq> []) (strings_Split ''string data'' nl) =
   filter (\<lambda>l. stripComment exampleDeps l \<noteq> [])
     (strings_Split (''# text'' @ nl @ ''string data'' @ nl @ ''  '' @ nl) nl)
   \<and> loadedMD5 (LoadMsgFromString exampleDeps 1 emptyContext ''string data'' ''std_msgs/String'') =
       Some (Inr ''md5(string data)'')
   \<and> loadedMD5 (LoadMsgFromString exampleDeps 1 emptyContext
         (''# text'' @ nl @ ''string data'' @ nl @ ''  '' @ nl) ''std_msgs/String'') =
       Some (Inr ''md5(string data)'')
   \<and> stripComment exampleDeps '' # note'' = [] \<and> CHR 0x0A \<notin> set '' # note''
   \<and> stripComment exampleDeps [] = [] \<and> CHR 0x0A \<notin> set []
   \<and> loadedMD5 (LoadMsgFromString exampleDeps 1 emptyContext
         (''int32 a'' @ nl @ '' # note'' @ nl @ ''int32 b'') ''pkg/M'') =
       Some (Inr (''md5(int32 a'' @ nl @ ''int32 b)''))
   \<and> loadedMD5 (LoadMsgFromString exampleDeps 1 emptyContext
         (''int32 a'' @ nl @ [] @ nl @ ''int32 b'') ''pkg/M'') =
       Some (Inr (''md5(int32 a'' @ nl @ ''int32 b)''))"
proof -
  have lines: "filter (\<lambda>l. stripComment exampleDeps l \<noteq> []) (strings_Split ''string data'' nl) =
     filter (\<lambda>l. stripComment exampleDeps l \<noteq> [])
       (strings_Split (''# text'' @ nl @ ''string data'' @ nl @ ''  '' @ nl) nl)"
    by (simp add: loader_simps)
  have one: "loadedMD5 (LoadMsgFromString exampleDeps 1 emptyContext ''string data'' ''std_msgs/String'') =
       Some (Inr ''md5(string data)'')"
    by (simp add: loader_simps loadedMD5_def)
  have two: "loadedMD5 (LoadMsgFromString exampleDeps 1 emptyContext
         (''int32 a'' @ nl @ ''int32 b'') ''pkg/M'') =
       Some (Inr (''md5(int32 a'' @ nl @ ''int32 b)''))"
    by (simp add: loader_simps loadedMD5_def)
  have skipped: "stripComment exampleDeps '' # note'' = []" "CHR 0x0A \<notin> set '' # note''"
    "stripComment exampleDeps [] = []" "CHR 0x0A \<notin> set []"
    by (simp_all add: loader_simps)
  show ?thesis
    using lines one two skipped
      MD5_ignores_skipped_lines [where d = exampleDeps and n = 1 and ctx = emptyContext
        and src = "''string data''" and src' = "''# text'' @ nl @ ''string data'' @ nl @ ''  '' @ nl"
        and fullname = "''std_msgs/String''", THEN conjunct1]
      MD5_ignores_skipped_lines [where d = exampleDeps and n = 1 and ctx = emptyContext
        and l = "'' # note''" and a = "''int32 a''" and b = "''int32 b''"
        and fullname = "''pkg/M''", THEN conjunct2, THEN conjunct1]
      MD5_ignores_skipped_lines [where d = exampleDeps and n = 1 and ctx = emptyContext
        and l = "'' # note''" and l' = "[]" and a = "''int32 a''" and b = "''int32 b''"
        and fullname = "''pkg/M''", THEN conjunct2, THEN conjunct2]
    by simp
qed

text \<open>
  With the helper modelled from the spec, the skipped lines include the lines of blanks
  and the lines in which only blanks stand before \<open>#\<close>.
\<close>

lemma example_stripComment_skips:
  assumes "set ws \<subseteq> {CHR '' ''}"
  shows "stripComment exampleDeps ws = []"
    and "stripComment exampleDeps (ws @ CHR ''#'' # rest) = []"
proof -
  have no: "CHR ''#'' \<notin> set ws" using assms by auto
  then have whole: "strings_Split ws ''#'' = [ws]"
    by (simp add: strings_Split.simps [of ws] strings_Cut_char_None)
  have trim: "trimSpace ws = []"
    using assms by (auto simp: trimSpace_def strings_Trim_def dest: set_dropWhileD)
  show "stripComment exampleDeps ws = []"
    by (simp add: exampleDeps_def whole trim)
  show "stripComment exampleDeps (ws @ CHR ''#'' # rest) = []"
    using strings_Split_char_append [of ws "CHR ''#''" rest]
    by (simp add: exampleDeps_def whole trim)
qed

lemma andThen_eq_Inr_iff:
  "andThen r k = Some (Inr y, c') \<longleftrightarrow> (\<exists>x c. r = Some (Inr x, c) \<and> k x c = Some (Inr y, c'))"
  by (auto simp: andThen_def split: option.splits sum.splits prod.splits)

lemma LoadMsgFromString_Inr:
  assumes "LoadMsgFromString d n ctx src fullname = Some (Inr spec, ctx')"
  shows "Text spec = src \<and> FullName spec = fullname"
  using assms
  by (auto simp: LoadMsgFromString_def LoadMsgFromString_over_def NewMsgSpec_def
        split: option.splits sum.splits prod.splits)

lemma ComputeActionMD5_Inr:
  assumes "ComputeActionMD5 d n c0 spec = Some (Inr md5sum, c3)"
  shows "\<exists>g c1 f c2 r.
           ComputeMD5Text d n c0 (ActionGoal spec) = Some (Inr g, c1) \<and>
           ComputeMD5Text d n c1 (ActionFeedback spec) = Some (Inr f, c2) \<and>
           ComputeMD5Text d n c2 (ActionResult spec) = Some (Inr r, c3) \<and>
           md5sum = md5hex d (g @ f @ r)"
  using assms by (simp add: ComputeActionMD5_def andThen_eq_Inr_iff) blast

text \<open>
  Claim C1.  An action that loads under full name \<open>F\<close> has the three messages
  \<open>FActionGoal\<close>, \<open>FActionFeedback\<close> and \<open>FActionResult\<close> with the texts put together from
  the fixed lines and \<open>F\<close>, the first with a newline at its end and the other two without,
  and its MD5 is the digest of the MD5 texts of the three, computed one after the other
  and appended in this order.
\<close>

theorem action_messages_and_MD5:
  assumes "LoadActionFromString d n ctx src F = Some (Inr act, ctx')"
  shows "FullName (ActionGoal act) = F @ ''ActionGoal''
    \<and> Text (ActionGoal act) =
        ''Header header'' @ nl @ ''actionlib_msgs/GoalID goal_id'' @ nl @ F @ ''Goal goal'' @ nl
    \<and> FullName (ActionFeedback act) = F @ ''ActionFeedback''
    \<and> Text (ActionFeedback act) =
        ''Header header'' @ nl @ ''actionlib_msgs/GoalStatus status'' @ nl @ F @ ''Feedback feedback''
    \<and> FullName (ActionResult act) = F @ ''ActionResult''
    \<and> Text (ActionResult act) =
        ''Header header'' @ nl @ ''actionlib_msgs/GoalStatus status'' @ nl @ F @ ''Result result''
    \<and> (\<exists>c0 g c1 f c2 r.
          ComputeMD5Text d n c0 (ActionGoal act) = Some (Inr g, c1) \<and>
          ComputeMD5Text d n c1 (ActionFeedback act) = Some (Inr f, c2) \<and>
          ComputeMD5Text d n c2 (ActionResult act) = Some (Inr r, ctx') \<and>
          act_MD5Sum act = md5hex d (g @ f @ r))"
proof -
  from assms obtain pkg short where name: "packageResourceName d F = Inr (pkg, short)"
    by (auto simp: LoadActionFromString_def split: sum.splits)
  from assms name obtain goalText resultText feedbackText
    where parts: "strings_Split src ''---'' = [goalText, resultText, feedbackText]"
    by (auto simp: LoadActionFromString_def split: list.splits)
  from assms name parts obtain ctx1 actionGoalSpec ctx2 ctx3 actionFeedbackSpec ctx4 ctx5
      actionResultSpec ctx6 goalSpec feedbackSpec resultSpec md5sum
    where ag: "LoadMsgFromString d n ctx1
                 (''Header header'' @ nl @ ''actionlib_msgs/GoalID goal_id'' @ nl @ F @ ''Goal goal'' @ nl)
                 (F @ ''ActionGoal'') = Some (Inr actionGoalSpec, ctx2)"
      and af: "LoadMsgFromString d n ctx3
                 (''Header header'' @ nl @ ''actionlib_msgs/GoalStatus status'' @ nl @ F @ ''Feedback feedback'')
                 (F @ ''ActionFeedback'') = Some (Inr actionFeedbackSpec, ctx4)"
      and ar: "LoadMsgFromString d n ctx5
                 (''Header header'' @ nl @ ''actionlib_msgs/GoalStatus status'' @ nl @ F @ ''Result result'')
                 (F @ ''ActionResult'') = Some (Inr actionResultSpec, ctx6)"
      and md5: "ComputeActionMD5 d n ctx6
                 \<lparr> act_Package = pkg, act_ShortName = short, act_FullName = F, act_Text = src,
                   act_MD5Sum = [], Goal = goalSpec, Feedback = feedbackSpec, Result = resultSpec,
                   ActionGoal = actionGoalSpec, ActionFeedback = actionFeedbackSpec,
                   ActionResult = actionResultSpec \<rparr> = Some (Inr md5sum, ctx')"
      and act: "act = \<lparr> act_Package = pkg, act_ShortName = short, act_FullName = F, act_Text = src,
                   act_MD5Sum = md5sum, Goal = goalSpec, Feedback = feedbackSpec, Result = resultSpec,
                   ActionGoal = actionGoalSpec, ActionFeedback = actionFeedbackSpec,
                   ActionResult = actionResultSpec \<rparr>"
    by (simp add: LoadActionFromString_def andThen_eq_Inr_iff) blast
  from ComputeActionMD5_Inr [OF md5] obtain g c1 f c2 r
    where goal: "ComputeMD5Text d n ctx6 actionGoalSpec = Some (Inr g, c1)"
      and feedback: "ComputeMD5Text d n c1 actionFeedbackSpec = Some (Inr f, c2)"
      and result: "ComputeMD5Text d n c2 actionResultSpec = Some (Inr r, ctx')"
      and sum: "md5sum = md5hex d (g @ f @ r)"
    by auto
  have "\<exists>c0 g c1 f c2 r.
          ComputeMD5Text d n c0 (ActionGoal act) = Some (Inr g, c1) \<and>
          ComputeMD5Text d n c1 (ActionFeedback act) = Some (Inr f, c2) \<and>
          ComputeMD5Text d n c2 (ActionResult act) = Some (Inr r, ctx') \<and>
          act_MD5Sum act = md5hex d (g @ f @ r)"
    using goal feedback result sum
    by (intro exI [of _ ctx6] exI [of _ g] exI [of _ c1] exI [of _ f] exI [of _ c2] exI [of _ r])
       (simp add: act)
  with LoadMsgFromString_Inr [OF ag] LoadMsgFromString_Inr [OF af] LoadMsgFromString_Inr [OF ar] act
  show ?thesis by simp
qed


lemma loaded_observe:
  assumes "map_option (\<lambda>(r, c). map_sum id f r) L = Some (Inr v)"
  shows "L \<noteq> None \<and> \<not> isl (fst (the L)) \<and> f (projr (fst (the L))) = v"
proof (cases L)
  case None
  with assms show ?thesis by simp
next
  case (Some p)
  with assms show ?thesis by (cases p; cases "fst p") auto
qed

theorem action_messages_and_MD5_witness:
  "LoadActionFromString exampleDeps 3 exampleContext Fibonacci ''actionlib_tutorials/Fibonacci'' \<noteq> None
   \<and> \<not> isl (fst (the (LoadActionFromString exampleDeps 3 exampleContext Fibonacci
                          ''actionlib_tutorials/Fibonacci'')))
   \<and> Text (ActionGoal (projr (fst (the (LoadActionFromString exampleDeps 3 exampleContext Fibonacci
          ''actionlib_tutorials/Fibonacci''))))) =
       ''Header header'' @ nl @ ''actionlib_msgs/GoalID goal_id'' @ nl @
       ''actionlib_tutorials/FibonacciGoal goal'' @ nl
   \<and> Text (ActionFeedback (projr (fst (the (LoadActionFromString exampleDeps 3 exampleContext Fibonacci
          ''actionlib_tutorials/Fibonacci''))))) =
       ''Header header'' @ nl @ ''actionlib_msgs/GoalStatus status'' @ nl @
       ''actionlib_tutorials/FibonacciFeedback feedback''
   \<and> Text (ActionResult (projr (fst (the (LoadActionFromString exampleDeps 3 exampleContext Fibonacci
          ''actionlib_tutorials/Fibonacci''))))) =
       ''Header header'' @ nl @ ''actionlib_msgs/GoalStatus status'' @ nl @
       ''actionlib_tutorials/FibonacciResult result''
   \<and> act_MD5Sum (projr (fst (the (LoadActionFromString exampleDeps 3 exampleContext Fibonacci
          ''actionlib_tutorials/Fibonacci'')))) =
       md5hex exampleDeps
         ((''md5(uint32 seq'' @ nl @ ''time stamp'' @ nl @ ''string frame_id) header'' @ nl @
           ''md5(time stamp'' @ nl @ ''string id) goal_id'' @ nl @ ''md5(int32 order) goal'') @
          (''md5(uint32 seq'' @ nl @ ''time stamp'' @ nl @ ''string frame_id) header'' @ nl @
           ''md5(md5(time stamp'' @ nl @ ''string id) goal_id'' @ nl @ ''uint8 status'' @ nl @
           ''string text) status'' @ nl @ ''md5(int32[] sequence) feedback'') @
          (''md5(uint32 seq'' @ nl @ ''time stamp'' @ nl @ ''string frame_id) header'' @ nl @
           ''md5(md5(time stamp'' @ nl @ ''string id) goal_id'' @ nl @ ''uint8 status'' @ nl @
           ''string text) status'' @ nl @ ''md5(int32[] sequence) result''))"
proof -
  let ?load = "LoadActionFromString exampleDeps 3 exampleContext Fibonacci ''actionlib_tutorials/Fibonacci''"
  have sum: "map_option (\<lambda>(r, c). map_sum id act_MD5Sum r) ?load =
      Some (Inr (md5hex exampleDeps
         ((''md5(uint32 seq'' @ nl @ ''time stamp'' @ nl @ ''string frame_id) header'' @ nl @
           ''md5(time stamp'' @ nl @ ''string id) goal_id'' @ nl @ ''md5(int32 order) goal'') @
          (''md5(uint32 seq'' @ nl @ ''time stamp'' @ nl @ ''string frame_id) header'' @ nl @
           ''md5(md5(time stamp'' @ nl @ ''string id) goal_id'' @ nl @ ''uint8 status'' @ nl @
           ''string text) status'' @ nl @ ''md5(int32[] sequence) feedback'') @
          (''md5(uint32 seq'' @ nl @ ''time stamp'' @ nl @ ''string frame_id) header'' @ nl @
           ''md5(md5(time stamp'' @ nl @ ''string id) goal_id'' @ nl @ ''uint8 status'' @ nl @
           ''string text) status'' @ nl @ ''md5(int32[] sequence) result''))))"
    by (simp add: loader_simps exampleContext_def Fibonacci_def numeral_3_eq_3)
  from loaded_observe [OF sum]
  have ok: "?load \<noteq> None" "\<not> isl (fst (the ?load))"
    and md5: "act_MD5Sum (projr (fst (the ?load))) = md5hex exampleDeps
         ((''md5(uint32 seq'' @ nl @ ''time stamp'' @ nl @ ''string frame_id) header'' @ nl @
           ''md5(time stamp'' @ nl @ ''string id) goal_id'' @ nl @ ''md5(int32 order) goal'') @
          (''md5(uint32 seq'' @ nl @ ''time stamp'' @ nl @ ''string frame_id) header'' @ nl @
           ''md5(md5(time stamp'' @ nl @ ''string id) goal_id'' @ nl @ ''uint8 status'' @ nl @
           ''string text) status'' @ nl @ ''md5(int32[] sequence) feedback'') @
          (''md5(uint32 seq'' @ nl @ ''time stamp'' @ nl @ ''string frame_id) header'' @ nl @
           ''md5(md5(time stamp'' @ nl @ ''string id) goal_id'' @ nl @ ''uint8 status'' @ nl @
           ''string text) status'' @ nl @ ''md5(int32[] sequence) result''))"
    by blast+
  show ?thesis
    using ok md5 action_messages_and_MD5 [OF loaded_Inr [OF ok]]
    by simp
qed

end
